theory Spec2Isabelle
  imports Complex_Main "HOL-Library.FSet"
begin

section \<open>Python numerics\<close>

text \<open>
  Python ints are \<open>int\<close>. Python floats are modelled as reals, and the arithmetic
  of the sections that follow is exact: it is the arithmetic of the source wherever every
  intermediate value is a double, which is the case for the pixel coordinates of a maze
  (integers and dyadic fractions far below \<open>2 ^ 53\<close>). What double precision adds,
  rounding to the nearest double and overflow, is written out in the section
  \<open>Double precision\<close> for the functions where a claim depends on it. The three
  operations of the source that mix ints and floats are: \<open>int(r)\<close>, which truncates
  toward zero; \<open>a // b\<close> on floats, the floor of the quotient (still a float); and
  \<open>a % b\<close> on floats with a positive divisor, the remainder of that floor division.
  \<open>math.hypot\<close> returns the double nearest to the Euclidean norm; \<open>hypot\<close> is
  the norm itself, and the two agree where the norm is a double.
\<close>

definition py_int :: "real \<Rightarrow> int" where
  "py_int r = (if 0 \<le> r then \<lfloor>r\<rfloor> else \<lceil>r\<rceil>)"

definition py_floordiv :: "real \<Rightarrow> real \<Rightarrow> real" where
  "py_floordiv a b = of_int \<lfloor>a / b\<rfloor>"

definition py_mod :: "real \<Rightarrow> real \<Rightarrow> real" where
  "py_mod a b = a - b * of_int \<lfloor>a / b\<rfloor>"

definition hypot :: "real \<Rightarrow> real \<Rightarrow> real" where
  "hypot dx dy = sqrt (dx * dx + dy * dy)"

section \<open>constants.py\<close>

definition TILE_SIZE :: int where
  "TILE_SIZE = 20"

definition GRID_WIDTH :: int where
  "GRID_WIDTH = 28"

definition GRID_HEIGHT :: int where
  "GRID_HEIGHT = 31"

definition SCREEN_WIDTH :: int where
  "SCREEN_WIDTH = GRID_WIDTH * TILE_SIZE"

definition SCREEN_HEIGHT :: int where
  "SCREEN_HEIGHT = GRID_HEIGHT * TILE_SIZE"

definition YELLOW :: string where
  "YELLOW = ''#FFCD00''"

definition GHOST_COLORS :: "string list" where
  "GHOST_COLORS = [''#FF0000'', ''#00FFFF'', ''#FF69B4'', ''#FFA500'']"

definition MAZE_LAYOUT :: "string list" where
  "MAZE_LAYOUT =
   [''############################'',
    ''#............##............#'',
    ''#.####.#####.##.#####.####.#'',
    ''#o####.#####.##.#####.####o#'',
    ''#.####.#####.##.#####.####.#'',
    ''#..........................#'',
    ''#.####.##.########.##.####.#'',
    ''#.####.##.########.##.####.#'',
    ''#......##....##....##......#'',
    ''######.##### ## #####.######'',
    ''     #.##### ## #####.#     '',
    ''     #.##          ##.#     '',
    ''     #.## ###--### ##.#     '',
    ''######.## #      # ##.######'',
    ''      .   # GGGG #   .      '',
    ''######.## #      # ##.######'',
    ''     #.## ######## ##.#     '',
    ''     #.##          ##.#     '',
    ''     #.## ######## ##.#     '',
    ''######.## ######## ##.######'',
    ''#............##............#'',
    ''#.####.#####.##.#####.####.#'',
    ''#o..##.......P.......##..o.#'',
    ''###.##.##.########.##.##.###'',
    ''#......##....##....##......#'',
    ''#.##########.##.##########.#'',
    ''#..........................#'',
    ''############################'']"

section \<open>vector.py\<close>

text \<open>The dataclass \<open>Vector\<close>; its fields \<open>x\<close> and \<open>y\<close> are \<open>vec_x\<close> and \<open>vec_y\<close>.\<close>

record vector =
  vec_x :: real
  vec_y :: real

definition Vector :: "real \<Rightarrow> real \<Rightarrow> vector" where
  "Vector a b = \<lparr>vec_x = a, vec_y = b\<rparr>"

definition vadd :: "vector \<Rightarrow> vector \<Rightarrow> vector" where
  "vadd u v = Vector (vec_x u + vec_x v) (vec_y u + vec_y v)"

definition vsub :: "vector \<Rightarrow> vector \<Rightarrow> vector" where
  "vsub u v = Vector (vec_x u - vec_x v) (vec_y u - vec_y v)"

definition vmul :: "vector \<Rightarrow> real \<Rightarrow> vector" where
  "vmul u scalar = Vector (vec_x u * scalar) (vec_y u * scalar)"

definition distance_to :: "vector \<Rightarrow> vector \<Rightarrow> real" where
  "distance_to u v = (let dx = vec_x u - vec_x v; dy = vec_y u - vec_y v in hypot dx dy)"

definition is_zero :: "vector \<Rightarrow> bool" where
  "is_zero u \<longleftrightarrow> vec_x u = 0 \<and> vec_y u = 0"

section \<open>maze.py\<close>

type_synonym tile_pos = "int \<times> int"

text \<open>
  \<open>PelletSet\<close>: two Python sets of tiles, finite by construction. \<open>from_layout\<close>
  walks the rows and the characters of each row with their indices, as the two nested
  \<open>enumerate\<close> loops do.
\<close>

record pellet_set =
  pellets :: "tile_pos fset"
  power_pellets :: "tile_pos fset"

fun scan_line :: "int \<Rightarrow> int \<Rightarrow> string \<Rightarrow> pellet_set \<Rightarrow> pellet_set" where
  "scan_line row col [] ps = ps"
| "scan_line row col (ch # line) ps =
     scan_line row (col + 1) line
       (if ch = CHR ''.'' then ps\<lparr>pellets := finsert (col, row) (pellets ps)\<rparr>
        else if ch = CHR ''o'' then ps\<lparr>power_pellets := finsert (col, row) (power_pellets ps)\<rparr>
        else ps)"

fun scan_rows :: "int \<Rightarrow> string list \<Rightarrow> pellet_set \<Rightarrow> pellet_set" where
  "scan_rows row [] ps = ps"
| "scan_rows row (line # rest) ps = scan_rows (row + 1) rest (scan_line row 0 line ps)"

definition from_layout :: "string list \<Rightarrow> pellet_set" where
  "from_layout lay = scan_rows 0 lay \<lparr>pellets = {||}, power_pellets = {||}\<rparr>"

definition copy :: "pellet_set \<Rightarrow> pellet_set" where
  "copy ps = \<lparr>pellets = pellets ps, power_pellets = power_pellets ps\<rparr>"

text \<open>
  \<open>Maze\<close>. The attribute \<open>Maze.pellets\<close> (the current pellet sets) is the field
  \<open>cur_pellets\<close>. The three \<open>raise ValueError\<close> of the constructor are the three
  values of \<open>layout_error\<close>.
\<close>

record maze =
  layout :: "string list"
  width :: int
  height :: int
  pellet_template :: pellet_set
  cur_pellets :: pellet_set
  player_start :: tile_pos
  ghost_starts :: "tile_pos list"

datatype layout_error = EmptyLayout | InconsistentWidth nat | MissingPlayerStart

fun validate_rows :: "nat \<Rightarrow> string list \<Rightarrow> int \<Rightarrow> layout_error option" where
  "validate_rows row [] w = None"
| "validate_rows row (line # rest) w =
     (if int (length line) \<noteq> w then Some (InconsistentWidth row)
      else validate_rows (Suc row) rest w)"

fun find_in_line :: "char \<Rightarrow> int \<Rightarrow> int \<Rightarrow> string \<Rightarrow> tile_pos option" where
  "find_in_line c row col [] = None"
| "find_in_line c row col (cell # line) =
     (if cell = c then Some (col, row) else find_in_line c row (col + 1) line)"

fun find_in_rows :: "char \<Rightarrow> int \<Rightarrow> string list \<Rightarrow> tile_pos option" where
  "find_in_rows c row [] = None"
| "find_in_rows c row (line # rest) =
     (case find_in_line c row 0 line of
        Some t \<Rightarrow> Some t
      | None \<Rightarrow> find_in_rows c (row + 1) rest)"

definition find_character :: "string list \<Rightarrow> char \<Rightarrow> tile_pos option" where
  "find_character lay c = find_in_rows c 0 lay"

fun collect_in_line :: "char \<Rightarrow> int \<Rightarrow> int \<Rightarrow> string \<Rightarrow> tile_pos list" where
  "collect_in_line c row col [] = []"
| "collect_in_line c row col (cell # line) =
     (if cell = c then (col, row) # collect_in_line c row (col + 1) line
      else collect_in_line c row (col + 1) line)"

fun collect_in_rows :: "char \<Rightarrow> int \<Rightarrow> string list \<Rightarrow> tile_pos list" where
  "collect_in_rows c row [] = []"
| "collect_in_rows c row (line # rest) =
     collect_in_line c row 0 line @ collect_in_rows c (row + 1) rest"

definition find_characters :: "string list \<Rightarrow> char \<Rightarrow> tile_pos list" where
  "find_characters lay c = collect_in_rows c 0 lay"

definition Maze_init :: "string list \<Rightarrow> layout_error + maze" where
  "Maze_init lay =
     (case lay of
        [] \<Rightarrow> Inl EmptyLayout
      | first # _ \<Rightarrow>
          (let w = int (length first); h = int (length lay) in
           case validate_rows 0 lay w of
             Some e \<Rightarrow> Inl e
           | None \<Rightarrow>
               (let template = from_layout lay in
                case find_character lay CHR ''P'' of
                  None \<Rightarrow> Inl MissingPlayerStart
                | Some start \<Rightarrow>
                    (let gs = find_characters lay CHR ''G'' in
                     Inr \<lparr>layout = lay, width = w, height = h,
                          pellet_template = template, cur_pellets = copy template,
                          player_start = start,
                          ghost_starts = (if gs = [] then [start] else gs)\<rparr>))))"

definition reset_pellets :: "maze \<Rightarrow> maze" where
  "reset_pellets m = m\<lparr>cur_pellets := copy (pellet_template m)\<rparr>"

text \<open>
  The two conversions between tiles and pixels, in exact arithmetic. For pixel centers up to
  \<open>2 ^ 53\<close> the computation in doubles gives the same center and the same tile
  (\<open>tile_to_pixel_center_double\<close> and \<open>tile_round_trip_double\<close> below, theorem
  \<open>tile_pixel_round_trip\<close>); beyond that it rounds.
\<close>

definition tile_to_pixel_center :: "tile_pos \<Rightarrow> int \<times> int" where
  "tile_to_pixel_center t =
     (case t of (x, y) \<Rightarrow>
        (py_int (of_int (x * TILE_SIZE) + of_int TILE_SIZE / 2),
         py_int (of_int (y * TILE_SIZE) + of_int TILE_SIZE / 2)))"

definition pixel_to_tile :: "vector \<Rightarrow> tile_pos" where
  "pixel_to_tile p =
     (py_int (py_floordiv (vec_x p) (of_int TILE_SIZE)),
      py_int (py_floordiv (vec_y p) (of_int TILE_SIZE)))"

definition is_wall :: "maze \<Rightarrow> tile_pos \<Rightarrow> bool" where
  "is_wall m t =
     (case t of (x, y) \<Rightarrow>
        if x < 0 \<or> y < 0 \<or> x \<ge> width m \<or> y \<ge> height m then True
        else layout m ! nat y ! nat x = CHR ''#'')"

definition is_valid_tile :: "maze \<Rightarrow> tile_pos \<Rightarrow> bool" where
  "is_valid_tile m t = (case t of (x, y) \<Rightarrow> 0 \<le> x \<and> x < width m \<and> 0 \<le> y \<and> y < height m)"

text \<open>
  \<open>collect_pellet\<close> mutates the current pellet sets and returns the score gained;
  the model returns the score together with the maze after the call.
\<close>

definition collect_pellet :: "maze \<Rightarrow> tile_pos \<Rightarrow> int \<times> maze" where
  "collect_pellet m t =
     (if t |\<in>| pellets (cur_pellets m) then
        (10, m\<lparr>cur_pellets := (cur_pellets m)\<lparr>pellets := pellets (cur_pellets m) |-| {|t|}\<rparr>\<rparr>)
      else if t |\<in>| power_pellets (cur_pellets m) then
        (50, m\<lparr>cur_pellets :=
                 (cur_pellets m)\<lparr>power_pellets := power_pellets (cur_pellets m) |-| {|t|}\<rparr>\<rparr>)
      else (0, m))"

definition remaining_pellets :: "maze \<Rightarrow> int" where
  "remaining_pellets m =
     int (fcard (pellets (cur_pellets m))) + int (fcard (power_pellets (cur_pellets m)))"

definition wrap_position :: "vector \<Rightarrow> vector" where
  "wrap_position p =
     (let x = vec_x p;
          x = (if x < 0 then of_int SCREEN_WIDTH - of_int TILE_SIZE / 2
               else if x \<ge> of_int SCREEN_WIDTH then of_int TILE_SIZE / 2
               else x)
      in Vector x (vec_y p))"

definition available_directions :: "maze \<Rightarrow> tile_pos \<Rightarrow> vector list" where
  "available_directions m t =
     filter (\<lambda>d. \<not> is_wall m (fst t + py_int (vec_x d), snd t + py_int (vec_y d)))
       [Vector 1 0, Vector (-1) 0, Vector 0 1, Vector 0 (-1)]"

definition collides_with_wall :: "maze \<Rightarrow> vector \<Rightarrow> real \<Rightarrow> bool" where
  "collides_with_wall m p r =
     list_ex (\<lambda>offset. is_wall m (pixel_to_tile (vadd p offset)))
       [Vector (- r) (- r), Vector r (- r), Vector (- r) r, Vector r r]"

definition ghost_spawn_points :: "maze \<Rightarrow> tile_pos list" where
  "ghost_spawn_points m = ghost_starts m"

section \<open>actors.py\<close>

definition DIRECTIONS :: "vector list" where
  "DIRECTIONS = [Vector 1 0, Vector (-1) 0, Vector 0 1, Vector 0 (-1)]"

text \<open>
  \<open>random.choice(seq)\<close> returns \<open>seq[i]\<close> for a random index \<open>i\<close> below
  \<open>len(seq)\<close>. The random draw is a parameter \<open>rnd\<close>, an arbitrary natural
  number reduced to an index; every index is the image of some draw. The source only
  calls it on a non-empty sequence.
\<close>

definition random_choice :: "'a list \<Rightarrow> nat \<Rightarrow> 'a" where
  "random_choice xs rnd = xs ! (rnd mod length xs)"

text \<open>
  \<open>Actor\<close>, the base class. \<open>Player\<close> extends the record; a \<open>Ghost\<close> has
  no attribute of its own. The methods of \<open>Actor\<close> work on both, through the record
  scheme.
\<close>

record actor =
  position :: vector
  color :: string
  speed :: real
  radius :: int
  direction :: vector
  next_direction :: "vector option"

record player = actor +
  orientation :: vector
  mouth_time :: real

type_synonym ghost = actor

definition Actor_init :: "vector \<Rightarrow> string \<Rightarrow> real \<Rightarrow> int \<Rightarrow> actor" where
  "Actor_init pos col spd rad =
     \<lparr>position = pos, color = col, speed = spd, radius = rad,
      direction = Vector 0 0, next_direction = None\<rparr>"

definition aligned_with_grid :: "'a actor_scheme \<Rightarrow> bool" where
  "aligned_with_grid a =
     (let grid_x = py_mod (vec_x (position a) - of_int TILE_SIZE / 2) (of_int TILE_SIZE);
          grid_y = py_mod (vec_y (position a) - of_int TILE_SIZE / 2) (of_int TILE_SIZE)
      in grid_x < 1 \<and> grid_y < 1)"

text \<open>
  \<open>_try_change_direction\<close> is only called with a buffered direction (the caller
  tests it, and the method asserts it); without one the model leaves the actor as it is.
\<close>

definition try_change_direction :: "maze \<Rightarrow> 'a actor_scheme \<Rightarrow> 'a actor_scheme" where
  "try_change_direction m a =
     (case next_direction a of
        None \<Rightarrow> a
      | Some nd \<Rightarrow>
          if vec_x nd = vec_x (direction a) \<and> vec_y nd = vec_y (direction a) then
            a\<lparr>next_direction := None\<rparr>
          else if \<not> aligned_with_grid a then a
          else
            (let tile = pixel_to_tile (position a);
                 target_tile = (fst tile + py_int (vec_x nd), snd tile + py_int (vec_y nd))
             in if is_wall m target_tile then a
                else a\<lparr>direction := nd, next_direction := None\<rparr>))"

definition stop_at_wall :: "maze \<Rightarrow> 'a actor_scheme \<Rightarrow> 'a actor_scheme" where
  "stop_at_wall m a =
     (let tile = pixel_to_tile (position a);
          center = tile_to_pixel_center tile
      in a\<lparr>position := Vector (of_int (fst center)) (of_int (snd center)),
           direction := Vector 0 0\<rparr>)"

text \<open>
  \<open>Actor.update\<close> for a step \<open>speed * dt\<close> within the doubles. When the step
  overflows (also for an infinite or nan \<open>dt\<close>) the source raises
  \<open>ValueError\<close> on its way through \<open>collides_with_wall\<close>;
  \<open>Actor_update_result\<close> below adds that case.
\<close>

definition Actor_update :: "real \<Rightarrow> maze \<Rightarrow> 'a actor_scheme \<Rightarrow> 'a actor_scheme" where
  "Actor_update dt m a =
     (let a1 = (if next_direction a \<noteq> None then try_change_direction m a else a);
          displacement = vmul (direction a1) (speed a1 * dt);
          new_position = vadd (position a1) displacement;
          a2 = (if \<not> collides_with_wall m new_position (of_int (radius a1))
                then a1\<lparr>position := new_position\<rparr>
                else stop_at_wall m a1)
      in a2\<lparr>position := wrap_position (position a2)\<rparr>)"

definition Player_init :: "vector \<Rightarrow> player" where
  "Player_init pos =
     \<lparr>position = pos, color = YELLOW, speed = 120, radius = 8,
      direction = Vector (-1) 0, next_direction = None,
      orientation = Vector (-1) 0, mouth_time = 0\<rparr>"

text \<open>The dictionary of \<open>handle_input\<close> is scanned in its insertion order.\<close>

definition handle_input :: "string set \<Rightarrow> player \<Rightarrow> player" where
  "handle_input pressed p =
     (if ''Left'' \<in> pressed then p\<lparr>next_direction := Some (Vector (-1) 0)\<rparr>
      else if ''Right'' \<in> pressed then p\<lparr>next_direction := Some (Vector 1 0)\<rparr>
      else if ''Up'' \<in> pressed then p\<lparr>next_direction := Some (Vector 0 (-1))\<rparr>
      else if ''Down'' \<in> pressed then p\<lparr>next_direction := Some (Vector 0 1)\<rparr>
      else p)"

definition Player_update :: "real \<Rightarrow> maze \<Rightarrow> player \<Rightarrow> player" where
  "Player_update dt m p =
     (let p1 = Actor_update dt m p;
          p2 = (if \<not> is_zero (direction p1) then p1\<lparr>orientation := direction p1\<rparr> else p1);
          cycle_duration = 4 / 10
      in p2\<lparr>mouth_time := py_mod (mouth_time p2 + dt) cycle_duration\<rparr>)"

definition Ghost_init :: "vector \<Rightarrow> string \<Rightarrow> real \<Rightarrow> nat \<Rightarrow> ghost" where
  "Ghost_init pos col spd rnd = (Actor_init pos col spd 8)\<lparr>direction := random_choice DIRECTIONS rnd\<rparr>"

definition choose_direction :: "maze \<Rightarrow> tile_pos \<Rightarrow> nat \<Rightarrow> ghost \<Rightarrow> vector" where
  "choose_direction m tile rnd g =
     (let available = available_directions m tile;
          opposite = Vector (- vec_x (direction g)) (- vec_y (direction g));
          candidates =
            filter (\<lambda>d. \<not> (vec_x d = vec_x opposite \<and> vec_y d = vec_y opposite)) available;
          candidates = (if candidates = [] then available else candidates)
      in if candidates = [] then opposite else random_choice candidates rnd)"

definition Ghost_update :: "real \<Rightarrow> maze \<Rightarrow> nat \<Rightarrow> ghost \<Rightarrow> ghost" where
  "Ghost_update dt m rnd g =
     (let tile = pixel_to_tile (position g);
          g1 = (if aligned_with_grid g then g\<lparr>direction := choose_direction m tile rnd g\<rparr>
                else g)
      in Actor_update dt m g1)"

section \<open>game.py\<close>

text \<open>
  The controller without its window: the Tk root, the canvas, the clock and the drawing
  methods are left out. The random source is a function \<open>rnd\<close> giving the draw of
  the \<open>i\<close>-th ghost; a level change draws again, after the draws of the ghosts.
\<close>

datatype GameState = MENU | PLAYING | GAME_OVER

record game =
  maze :: maze
  level :: int
  score :: int
  lives :: int
  state :: GameState
  running :: bool
  pressed_keys :: "string set"
  player :: "player option"
  ghosts :: "ghost list"
  walls_drawn :: bool

definition tile_center_vector :: "tile_pos \<Rightarrow> vector" where
  "tile_center_vector t =
     (let center = tile_to_pixel_center t in Vector (of_int (fst center)) (of_int (snd center)))"

definition create_entities :: "(nat \<Rightarrow> nat) \<Rightarrow> game \<Rightarrow> game" where
  "create_entities rnd g =
     (let p = (Player_init (tile_center_vector (player_start (maze g))))\<lparr>direction := Vector (-1) 0\<rparr>;
          base_speed = 90 + (level g - 1) * 10;
          gs = map (\<lambda>(i, start).
                      Ghost_init (tile_center_vector start)
                        (GHOST_COLORS ! (i mod length GHOST_COLORS)) (of_int base_speed) (rnd i))
                 (enumerate 0 (ghost_spawn_points (maze g)))
      in g\<lparr>player := Some p, ghosts := gs\<rparr>)"

text \<open>\<open>zip\<close> stops at the shorter list: a ghost beyond the spawn points is left alone.\<close>

fun reset_ghosts :: "ghost list \<Rightarrow> tile_pos list \<Rightarrow> ghost list" where
  "reset_ghosts (gh # gs) (start # starts) =
     gh\<lparr>position := tile_center_vector start, direction := Vector 1 0, next_direction := None\<rparr>
       # reset_ghosts gs starts"
| "reset_ghosts [] starts = []"
| "reset_ghosts gs [] = gs"

definition reset_positions :: "game \<Rightarrow> game" where
  "reset_positions g =
     (case player g of
        None \<Rightarrow> g
      | Some p \<Rightarrow>
          g\<lparr>player := Some (p\<lparr>position := tile_center_vector (player_start (maze g)),
                               direction := Vector (-1) 0, next_direction := None\<rparr>),
            ghosts := reset_ghosts (ghosts g) (ghost_spawn_points (maze g))\<rparr>)"

definition Game_init :: "(nat \<Rightarrow> nat) \<Rightarrow> layout_error + game" where
  "Game_init rnd =
     (case Maze_init MAZE_LAYOUT of
        Inl e \<Rightarrow> Inl e
      | Inr m \<Rightarrow>
          Inr (create_entities rnd
                 \<lparr>maze = m, level = 1, score = 0, lives = 3, state = MENU, running = True,
                  pressed_keys = {}, player = None, ghosts = [], walls_drawn = False\<rparr>))"

definition start_new_game :: "(nat \<Rightarrow> nat) \<Rightarrow> game \<Rightarrow> game" where
  "start_new_game rnd g =
     (create_entities rnd (g\<lparr>level := 1, score := 0, lives := 3, maze := reset_pellets (maze g)\<rparr>))
       \<lparr>state := PLAYING, pressed_keys := {}, walls_drawn := False\<rparr>"

definition collides :: "'a actor_scheme \<Rightarrow> 'b actor_scheme \<Rightarrow> bool" where
  "collides actor_a actor_b \<longleftrightarrow>
     distance_to (position actor_a) (position actor_b) < of_int (radius actor_a + radius actor_b - 2)"

text \<open>
  The last loop of \<open>Game.update\<close>: the first ghost that collides with the player costs
  a life and ends the loop (\<open>break\<close>). The player object is the one \<open>update\<close>
  moved; the loop does not replace it before it breaks.
\<close>

fun collision_loop :: "player \<Rightarrow> game \<Rightarrow> ghost list \<Rightarrow> game" where
  "collision_loop p g [] = g"
| "collision_loop p g (gh # rest) =
     (if collides p gh then
        (let g1 = g\<lparr>lives := lives g - 1\<rparr>
         in if lives g1 \<le> 0 then g1\<lparr>state := GAME_OVER\<rparr> else reset_positions g1)
      else collision_loop p g rest)"

text \<open>The first part of \<open>Game.update\<close>: input, movement, pellet collection.\<close>

definition move_and_collect :: "real \<Rightarrow> (nat \<Rightarrow> nat) \<Rightarrow> player \<Rightarrow> game \<Rightarrow> game" where
  "move_and_collect dt rnd p g =
     (let p1 = Player_update dt (maze g) (handle_input (pressed_keys g) p);
          gs1 = map (\<lambda>(i, gh). Ghost_update dt (maze g) (rnd i) gh) (enumerate 0 (ghosts g));
          tile = pixel_to_tile (position p1);
          r = collect_pellet (maze g) tile
      in g\<lparr>player := Some p1, ghosts := gs1, maze := snd r, score := score g + fst r\<rparr>)"

definition Game_update :: "real \<Rightarrow> (nat \<Rightarrow> nat) \<Rightarrow> game \<Rightarrow> game" where
  "Game_update dt rnd g =
     (case player g of
        None \<Rightarrow> g
      | Some p \<Rightarrow>
          (let g1 = move_and_collect dt rnd p g in
           if remaining_pellets (maze g1) = 0 then
             (create_entities (\<lambda>i. rnd (length (ghosts g1) + i))
                (g1\<lparr>level := level g1 + 1, maze := reset_pellets (maze g1)\<rparr>))
               \<lparr>walls_drawn := False\<rparr>
           else
             (case player g1 of
                None \<Rightarrow> g1
              | Some p1 \<Rightarrow> collision_loop p1 g1 (ghosts g1))))"

definition frame :: "real \<Rightarrow> (nat \<Rightarrow> nat) \<Rightarrow> game \<Rightarrow> game" where
  "frame dt rnd g =
     (if \<not> running g then g
      else if state g = PLAYING then Game_update dt rnd g
      else g)"

definition on_key_press :: "string \<Rightarrow> (nat \<Rightarrow> nat) \<Rightarrow> game \<Rightarrow> game" where
  "on_key_press key rnd g =
     (if key = ''Escape'' then g\<lparr>running := False\<rparr>
      else if state g = MENU \<and> key \<in> {''Return'', ''space''} then start_new_game rnd g
      else if state g = GAME_OVER then start_new_game rnd g
      else g\<lparr>pressed_keys := insert key (pressed_keys g)\<rparr>)"

definition on_key_release :: "string \<Rightarrow> game \<Rightarrow> game" where
  "on_key_release key g = g\<lparr>pressed_keys := pressed_keys g - {key}\<rparr>"

text \<open>
  What the event loop delivers to the controller, and the states it can reach from
  \<open>Game.__init__\<close>. The maze is only ever changed through \<open>collect_pellet\<close> and
  \<open>reset_pellets\<close>; \<open>maze_op\<close> lists these two for the claims about the maze alone.
\<close>

datatype event = Tick real "nat \<Rightarrow> nat" | KeyPress string "nat \<Rightarrow> nat" | KeyRelease string

fun handle_event :: "game \<Rightarrow> event \<Rightarrow> game" where
  "handle_event g (Tick dt rnd) = frame dt rnd g"
| "handle_event g (KeyPress key rnd) = on_key_press key rnd g"
| "handle_event g (KeyRelease key) = on_key_release key g"

definition run_events :: "game \<Rightarrow> event list \<Rightarrow> game" where
  "run_events g evs = foldl handle_event g evs"

datatype maze_op = CollectPellet tile_pos | ResetPellets

fun apply_op :: "maze \<Rightarrow> maze_op \<Rightarrow> maze" where
  "apply_op m (CollectPellet t) = snd (collect_pellet m t)"
| "apply_op m ResetPellets = reset_pellets m"

definition apply_ops :: "maze \<Rightarrow> maze_op list \<Rightarrow> maze" where
  "apply_ops m ops = foldl apply_op m ops"

section \<open>Double precision\<close>

text \<open>
  A Python float is an IEEE 754 binary64 number. \<open>rd\<close> rounds a real to the nearest
  double, ties to the even significand: the quantum of a number with
  \<open>2 ^ e \<le> |x| < 2 ^ (e + 1)\<close> is \<open>2 ^ (e - 52)\<close>, and \<open>2 ^ (- 1074)\<close>
  below the normal range. A result whose exact value is at or beyond
  \<open>2 ^ 1024 - 2 ^ 970\<close> (half a quantum above the largest double) is not a finite
  double (\<open>float_overflow\<close>): converting such an int raises \<open>OverflowError\<close>,
  and a product or sum of floats becomes \<open>inf\<close>.
\<close>

datatype py_error = ValueError | OverflowError

definition pow2 :: "int \<Rightarrow> real" where
  "pow2 k = (if 0 \<le> k then 2 ^ nat k else 1 / 2 ^ nat (- k))"

definition round_half_even :: "real \<Rightarrow> int" where
  "round_half_even x =
     (let f = \<lfloor>x\<rfloor>; d = x - of_int f
      in if d < 1 / 2 then f else if 1 / 2 < d then f + 1 else if even f then f else f + 1)"

definition float_exponent :: "real \<Rightarrow> int" where
  "float_exponent x = max \<lfloor>log 2 \<bar>x\<bar>\<rfloor> (- 1022)"

definition rd :: "real \<Rightarrow> real" where
  "rd x =
     (if x = 0 then 0
      else (let q = pow2 (float_exponent x - 52) in of_int (round_half_even (x / q)) * q))"

definition float_overflow :: "real \<Rightarrow> bool" where
  "float_overflow x \<longleftrightarrow> 2 ^ 1024 - 2 ^ 970 \<le> \<bar>x\<bar>"

text \<open>\<open>float(k)\<close> for an int \<open>k\<close>, also where an int meets a float in \<open>+\<close>.\<close>

definition float_of_int :: "int \<Rightarrow> py_error + real" where
  "float_of_int k =
     (if float_overflow (of_int k) then Inl OverflowError else Inr (rd (of_int k)))"

text \<open>
  \<open>Maze.tile_to_pixel_center\<close> in doubles. One coordinate is
  \<open>int(x * TILE_SIZE + TILE_SIZE / 2)\<close>: the product is an int, the quotient is the
  double \<open>10.0\<close>, the sum converts the int to a float and rounds.
\<close>

definition center_coordinate :: "int \<Rightarrow> py_error + int" where
  "center_coordinate x =
     (case float_of_int (x * TILE_SIZE) of
        Inl e \<Rightarrow> Inl e
      | Inr f \<Rightarrow> Inr (py_int (rd (f + rd (of_int TILE_SIZE / 2)))))"

definition tile_to_pixel_center_double :: "tile_pos \<Rightarrow> py_error + int \<times> int" where
  "tile_to_pixel_center_double t =
     (case t of (x, y) \<Rightarrow>
        (case center_coordinate x of
           Inl e \<Rightarrow> Inl e
         | Inr cx \<Rightarrow>
             (case center_coordinate y of Inl e \<Rightarrow> Inl e | Inr cy \<Rightarrow> Inr (cx, cy))))"

text \<open>
  \<open>Maze.pixel_to_tile\<close> in doubles. Floor division of floats is CPython's: the exact
  remainder \<open>fmod\<close>, then the rounded quotient of the rounded difference, corrected by
  one when remainder and divisor differ in sign, then its floor, raised by one when the
  quotient lies more than a half above it. The divisor \<open>TILE_SIZE\<close> is the double
  \<open>20.0\<close>.
\<close>

definition float_fmod :: "real \<Rightarrow> real \<Rightarrow> real" where
  "float_fmod v w = v - w * of_int (py_int (v / w))"

definition float_floordiv :: "real \<Rightarrow> real \<Rightarrow> real" where
  "float_floordiv v w =
     (let mod0 = float_fmod v w;
          div0 = rd (rd (v - mod0) / w);
          div1 = (if mod0 \<noteq> 0 \<and> ((w < 0) \<noteq> (mod0 < 0)) then rd (div0 - 1) else div0)
      in if div1 \<noteq> 0 then
           (let f = of_int \<lfloor>div1\<rfloor> in if 1 / 2 < rd (div1 - f) then rd (f + 1) else f)
         else 0)"

definition pixel_to_tile_double :: "vector \<Rightarrow> tile_pos" where
  "pixel_to_tile_double p =
     (py_int (float_floordiv (vec_x p) (of_int TILE_SIZE)),
      py_int (float_floordiv (vec_y p) (of_int TILE_SIZE)))"

text \<open>
  The round trip as the callers make it (\<open>_stop_at_wall\<close>, \<open>_create_entities\<close>,
  \<open>reset_positions\<close>): the center of a tile, its two ints made floats of a
  \<open>Vector\<close>, and the tile of that point.
\<close>

definition tile_round_trip_double :: "tile_pos \<Rightarrow> py_error + tile_pos" where
  "tile_round_trip_double t =
     (case tile_to_pixel_center_double t of
        Inl e \<Rightarrow> Inl e
      | Inr center \<Rightarrow>
          (case float_of_int (fst center) of
             Inl e \<Rightarrow> Inl e
           | Inr fx \<Rightarrow>
               (case float_of_int (snd center) of
                  Inl e \<Rightarrow> Inl e
                | Inr fy \<Rightarrow> Inr (pixel_to_tile_double (Vector fx fy)))))"

text \<open>
  \<open>Actor.update\<close> with its failure. When \<open>speed * dt\<close>, a component of the
  displacement or a component of the new position is beyond the doubles, that component of
  the new position is \<open>inf\<close> or \<open>nan\<close>, and \<open>int(... // TILE_SIZE)\<close> in
  \<open>pixel_to_tile\<close>, reached through \<open>collides_with_wall\<close>, raises
  \<open>ValueError\<close>. Otherwise the update is \<open>Actor_update\<close>.
\<close>

definition step_overflows :: "real \<Rightarrow> 'a actor_scheme \<Rightarrow> bool" where
  "step_overflows dt a =
     (float_overflow (speed a * dt) \<or>
      (let step = rd (speed a * dt) in
         float_overflow (vec_x (direction a) * step) \<or>
         float_overflow (vec_y (direction a) * step) \<or>
         float_overflow (vec_x (position a) + rd (vec_x (direction a) * step)) \<or>
         float_overflow (vec_y (position a) + rd (vec_y (direction a) * step))))"

definition Actor_update_result ::
  "real \<Rightarrow> maze \<Rightarrow> 'a actor_scheme \<Rightarrow> py_error + 'a actor_scheme" where
  "Actor_update_result dt m a =
     (let a1 = (if next_direction a \<noteq> None then try_change_direction m a else a)
      in if step_overflows dt a1 then Inl ValueError else Inr (Actor_update dt m a))"

text \<open>A sequence of ticks of one actor; the first tick that raises ends it.\<close>

fun run_ticks_result ::
  "maze \<Rightarrow> 'a actor_scheme \<Rightarrow> real list \<Rightarrow> py_error + 'a actor_scheme" where
  "run_ticks_result m a [] = Inr a"
| "run_ticks_result m a (dt # dts) =
     (case Actor_update_result dt m a of
        Inl e \<Rightarrow> Inl e
      | Inr b \<Rightarrow> run_ticks_result m b dts)"

section \<open>Example inputs\<close>

text \<open>
  A small layout used to run the definitions on concrete inputs: a player start, a plain
  pellet and a power pellet in one corridor. \<open>small_maze\<close> is the maze its
  construction returns.
\<close>

definition small_layout :: "string list" where
  "small_layout = [''#####'', ''#P.o#'', ''#####'']"

definition small_maze :: maze where
  "small_maze =
     \<lparr>layout = small_layout, width = 5, height = 3,
      pellet_template = \<lparr>pellets = {|(2, 1)|}, power_pellets = {|(3, 1)|}\<rparr>,
      cur_pellets = \<lparr>pellets = {|(2, 1)|}, power_pellets = {|(3, 1)|}\<rparr>,
      player_start = (1, 1), ghost_starts = [(1, 1)]\<rparr>"

text \<open>
  The maze that \<open>Maze(constants.MAZE_LAYOUT)\<close> builds, the only one the controller
  constructs.
\<close>

definition game_maze :: maze where
  "game_maze =
     \<lparr>layout = MAZE_LAYOUT, width = 28, height = 28,
      pellet_template = from_layout MAZE_LAYOUT, cur_pellets = from_layout MAZE_LAYOUT,
      player_start = (13, 22), ghost_starts = [(12, 14), (13, 14), (14, 14), (15, 14)]\<rparr>"

text \<open>
  A controller in the middle of a game on \<open>small_maze\<close>: the player in the
  corridor and one ghost next to it.
\<close>

definition small_game :: game where
  "small_game =
     \<lparr>maze = small_maze, level = 1, score = 0, lives = 3, state = PLAYING, running = True,
      pressed_keys = {}, player = Some (Player_init (Vector 50 30)),
      ghosts = [(Ghost_init (Vector 56 30) ''#FF0000'' 90 0)], walls_drawn = True\<rparr>"

section \<open>Grid alignment as the specification words it\<close>

text \<open>
  Following the words of the specification, not the code: an actor is grid-aligned when
  the offset of its position from the nearest tile center is less than 1 pixel on both
  axes. The nearest tile center is the center of the tile the position lies in. The code's
  test is \<open>aligned_with_grid\<close> above; the two are compared below.
\<close>

definition spec_grid_aligned :: "vector \<Rightarrow> bool" where
  "spec_grid_aligned p =
     (let c = tile_center_vector (pixel_to_tile p)
      in \<bar>vec_x p - vec_x c\<bar> < 1 \<and> \<bar>vec_y p - vec_y c\<bar> < 1)"

section \<open>Coordinates\<close>

lemma py_int_of_int: "py_int (of_int k) = k"
  by (simp add: py_int_def)

lemma pixel_to_tile_eq:
  "pixel_to_tile p = (\<lfloor>vec_x p / 20\<rfloor>, \<lfloor>vec_y p / 20\<rfloor>)"
  by (simp add: pixel_to_tile_def py_floordiv_def py_int_of_int TILE_SIZE_def)

lemma tile_to_pixel_center_eq:
  "tile_to_pixel_center (c, r) = (20 * c + 10, 20 * r + 10)"
proof -
  have "\<And>k::int. py_int (of_int (k * 20) + 20 / 2) = 20 * k + 10"
  proof -
    fix k :: int
    have "(of_int (k * 20) + 20 / 2 :: real) = of_int (20 * k + 10)" by simp
    then show "py_int (of_int (k * 20) + 20 / 2) = 20 * k + 10"
      using py_int_of_int by metis
  qed
  then show ?thesis by (simp add: tile_to_pixel_center_def TILE_SIZE_def)
qed

lemma floor_center: "\<lfloor>(of_int (20 * c + 10) :: real) / 20\<rfloor> = c"
proof -
  have "\<lfloor>(of_int (20 * c + 10) :: real) / of_int 20\<rfloor> = (20 * c + 10) div 20"
    by (rule floor_divide_of_int_eq)
  then show ?thesis by simp
qed

text \<open>
  Rounding to a double leaves an integer of magnitude up to \<open>2 ^ 53\<close> as it is.
\<close>

lemma pow2_powr: "pow2 k = 2 powr (of_int k)"
  by (simp add: pow2_def powr_real_of_int field_simps)

lemma pow2_pos: "0 < pow2 k"
  by (simp add: pow2_def)

lemma round_half_even_of_int: "round_half_even (of_int j) = j"
  by (simp add: round_half_even_def)

lemma float_exponent_eq:
  assumes "2 ^ n \<le> \<bar>x\<bar>" and "\<bar>x\<bar> < 2 ^ Suc n"
  shows "float_exponent x = int n"
proof -
  have pos: "0 < \<bar>x\<bar>"
    using assms(1) by (smt (verit) zero_less_power)
  have "\<lfloor>log 2 \<bar>x\<bar>\<rfloor> = int n"
    using assms pos by (simp add: floor_log_eq_powr_iff powr_realpow powr_add)
  then show ?thesis by (simp add: float_exponent_def)
qed

lemma rd_eval:
  assumes "2 ^ n \<le> \<bar>x\<bar>" and "\<bar>x\<bar> < 2 ^ Suc n"
  shows "rd x = of_int (round_half_even (x / pow2 (int n - 52))) * pow2 (int n - 52)"
proof -
  have "x \<noteq> 0" using assms(1) by (smt (verit) zero_less_power abs_zero)
  then show ?thesis
    by (simp add: rd_def float_exponent_eq[OF assms] Let_def)
qed

lemma rd_of_int:
  assumes "\<bar>k\<bar> \<le> 2 ^ 53"
  shows "rd (of_int k) = of_int k"
proof (cases "k = 0")
  case True
  then show ?thesis by (simp add: rd_def)
next
  case False
  define a :: real where "a = \<bar>of_int k\<bar>"
  define e where "e = \<lfloor>log 2 a\<rfloor>"
  have a1: "1 \<le> a" using False by (simp add: a_def)
  have a53: "a \<le> 2 ^ 53"
  proof -
    have "real_of_int \<bar>k\<bar> \<le> real_of_int (2 ^ 53)" using assms by (rule of_int_le_iff[THEN iffD2])
    then show ?thesis by (simp add: a_def)
  qed
  have b: "2 powr (of_int e) \<le> a" "a < 2 powr (of_int (e + 1))"
    using floor_log_eq_powr_iff[of a 2 e] a1 by (simp_all add: e_def)
  have e0: "0 \<le> e"
    using a1 by (simp add: e_def)
  have e53: "e \<le> 53"
  proof (rule ccontr)
    assume "\<not> e \<le> 53"
    then have "54 \<le> e" by simp
    then have "(2::real) powr (real_of_int 54) \<le> 2 powr (real_of_int e)"
      by (intro powr_mono) simp_all
    then have "(2::real) ^ 54 \<le> a" using b(1) by simp
    then show False using a53 by simp
  qed
  have fe: "float_exponent (of_int k) = e"
    using e0 by (simp add: float_exponent_def e_def a_def)
  have k0: "real_of_int k \<noteq> 0" using False by simp
  show ?thesis
  proof (cases "e \<le> 52")
    case True
    have q: "pow2 (e - 52) = 1 / 2 ^ nat (52 - e)"
      using True by (cases "e = 52") (simp_all add: pow2_def)
    have "real_of_int k / pow2 (e - 52) = of_int (k * 2 ^ nat (52 - e))"
      by (simp add: q)
    then have "round_half_even (real_of_int k / pow2 (e - 52)) = k * 2 ^ nat (52 - e)"
      by (simp only: round_half_even_of_int)
    then show ?thesis
      using k0 by (simp add: rd_def fe Let_def q)
  next
    case False
    then have e: "e = 53" using e53 by simp
    have "(2::real) powr 53 \<le> a" using b(1) e by simp
    then have "a = 2 ^ 53" using a53 by (simp add: powr_realpow[symmetric])
    then have "\<bar>real_of_int k\<bar> = real_of_int (2 ^ 53)" by (simp add: a_def)
    then have "\<bar>k\<bar> = 2 ^ 53"
      by (metis of_int_abs of_int_eq_iff)
    then have kk: "k = 2 ^ 53 \<or> k = - (2 ^ 53)" by linarith
    have q: "pow2 (e - 52) = 2" by (simp add: e pow2_def)
    have "real_of_int k / 2 = of_int (k div 2)"
      using kk by auto
    then have "round_half_even (real_of_int k / pow2 (e - 52)) = k div 2"
      by (simp only: q round_half_even_of_int)
    then show ?thesis
      using k0 kk by (auto simp add: rd_def fe Let_def q)
  qed
qed


lemma small_is_finite: "\<bar>x\<bar> \<le> 2 ^ 53 \<Longrightarrow> \<not> float_overflow x"
proof -
  have "(2::real) ^ 53 < 2 ^ 1024 - 2 ^ 970" by simp
  then show "\<bar>x\<bar> \<le> 2 ^ 53 \<Longrightarrow> \<not> float_overflow x"
    unfolding float_overflow_def by linarith
qed

lemma float_of_int_exact:
  assumes "\<bar>k\<bar> \<le> 2 ^ 53"
  shows "float_of_int k = Inr (of_int k)"
proof -
  have "\<bar>real_of_int k\<bar> \<le> 2 ^ 53"
    using assms by (metis of_int_abs of_int_le_iff of_int_numeral of_int_power)
  then show ?thesis
    by (simp add: float_of_int_def small_is_finite rd_of_int[OF assms])
qed

lemma center_coordinate_exact:
  assumes "0 \<le> x" and "x * TILE_SIZE + TILE_SIZE div 2 \<le> 2 ^ 53"
  shows "center_coordinate x = Inr (20 * x + 10)"
proof -
  have b: "\<bar>x * 20\<bar> \<le> 2 ^ 53" "\<bar>20 * x + 10\<bar> \<le> 2 ^ 53"
    using assms by (simp_all add: TILE_SIZE_def)
  have ten: "rd 10 = 10"
    using rd_of_int[of 10] by simp
  have eq: "real_of_int (x * 20) + 10 = real_of_int (20 * x + 10)" by simp
  have "rd (real_of_int (x * 20) + 10) = real_of_int (20 * x + 10)"
    by (simp only: eq rd_of_int[OF b(2)])
  then show ?thesis
    using float_of_int_exact[OF b(1)] py_int_of_int[of "20 * x + 10"]
    by (simp add: center_coordinate_def TILE_SIZE_def ten)
qed

lemma float_floordiv_center:
  assumes "0 \<le> c" and "20 * c + 10 \<le> 2 ^ 53"
  shows "float_floordiv (of_int (20 * c + 10)) 20 = of_int c"
proof -
  have q: "real_of_int (20 * c + 10) / 20 = of_int c + 1 / 2" by simp
  have fl: "\<lfloor>real_of_int c + 1 / 2\<rfloor> = c" by linarith
  have nn: "0 \<le> real_of_int c + 1 / 2" using assms(1) by simp
  have "py_int (real_of_int c + 1 / 2) = c"
    using fl nn by (simp add: py_int_def)
  then have t: "py_int (real_of_int (20 * c + 10) / 20) = c"
    by (simp only: q)
  have m: "float_fmod (of_int (20 * c + 10)) 20 = 10"
    unfolding float_fmod_def t by simp
  have b: "\<bar>20 * c\<bar> \<le> 2 ^ 53" "\<bar>c\<bar> \<le> 2 ^ 53"
    using assms by simp_all
  have "real_of_int (20 * c + 10) - 10 = real_of_int (20 * c)" by simp
  then have r1: "rd (real_of_int (20 * c + 10) - 10) = real_of_int (20 * c)"
    using rd_of_int[OF b(1)] by simp
  have r2: "rd (real_of_int (20 * c) / 20) = of_int c"
    using rd_of_int[OF b(2)] by simp
  have r0: "rd 0 = 0" by (simp add: rd_def)
  show ?thesis
    by (simp only: float_floordiv_def m r1 r2 Let_def) (simp add: r0)
qed

lemma float_floordiv_ten: "float_floordiv 10 20 = 0"
  using float_floordiv_center[of 0] by simp

text \<open>
  C10, as the code has it. For every tile \<open>(col, row)\<close> with \<open>col \<ge> 0\<close>,
  \<open>row \<ge> 0\<close> and pixel centers \<open>col * TILE_SIZE + TILE_SIZE / 2\<close> and
  \<open>row * TILE_SIZE + TILE_SIZE / 2\<close> of at most \<open>2 ^ 53\<close>, the computation in
  doubles returns the exact pixel center, and the tile of that point is \<open>(col, row)\<close>
  again.
\<close>

theorem tile_pixel_round_trip:
  assumes "0 \<le> col" and "0 \<le> row"
    and "col * TILE_SIZE + TILE_SIZE div 2 \<le> 2 ^ 53"
    and "row * TILE_SIZE + TILE_SIZE div 2 \<le> 2 ^ 53"
  shows "tile_to_pixel_center_double (col, row) = Inr (tile_to_pixel_center (col, row)) \<and>
         tile_round_trip_double (col, row) = Inr (col, row)"
proof -
  have b: "\<bar>20 * col + 10\<bar> \<le> 2 ^ 53" "\<bar>20 * row + 10\<bar> \<le> 2 ^ 53"
    "20 * col + 10 \<le> 2 ^ 53" "20 * row + 10 \<le> 2 ^ 53"
    using assms by (simp_all add: TILE_SIZE_def)
  have c: "tile_to_pixel_center_double (col, row) = Inr (20 * col + 10, 20 * row + 10)"
    by (simp add: tile_to_pixel_center_double_def center_coordinate_exact[OF assms(1,3)]
        center_coordinate_exact[OF assms(2,4)])
  have t: "pixel_to_tile_double
      (Vector (real_of_int (20 * col + 10)) (real_of_int (20 * row + 10))) = (col, row)"
    using float_floordiv_center[OF assms(1) b(3)] float_floordiv_center[OF assms(2) b(4)]
    by (simp add: pixel_to_tile_double_def Vector_def TILE_SIZE_def py_int_of_int)
  show ?thesis
    using t
    by (simp add: c tile_to_pixel_center_eq tile_round_trip_double_def
        float_of_int_exact[OF b(1)] float_of_int_exact[OF b(2)])
qed


text \<open>
  The claim C10 as written covers every tile with \<open>col \<ge> 0\<close> and
  \<open>row \<ge> 0\<close>. At \<open>col = 3602879701896398\<close> the product
  \<open>col * 20 = 72057594037927960\<close> lies between two doubles and becomes
  \<open>72057594037927968\<close>; adding \<open>10.0\<close> rounds to \<open>72057594037927984\<close>,
  and the tile of that pixel is \<open>3602879701896399\<close>, one to the right.
\<close>

lemma rd_near_2_56:
  "rd 72057594037927960 = 72057594037927968"
  "rd 72057594037927978 = 72057594037927984"
  "rd 72057594037927984 = 72057594037927984"
  "rd 72057594037927980 = 72057594037927984"
  by (subst rd_eval[of 56], simp, simp, simp add: pow2_def round_half_even_def)+

lemma rd_quotient: "rd (18014398509481996 / 5) = 3602879701896399"
  by (subst rd_eval[of 51], simp, simp, simp add: pow2_def round_half_even_def)

theorem round_trip_beyond_2_53_counterexample:
  "(0::int) \<le> 3602879701896398 \<and>
   tile_to_pixel_center_double (3602879701896398, 0) = Inr (72057594037927984, 10) \<and>
   tile_round_trip_double (3602879701896398, 0) = Inr (3602879701896399, 0)"
proof -
  have fin: "\<not> float_overflow 72057594037927960" "\<not> float_overflow 72057594037927984"
    by (simp_all add: float_overflow_def)
  have ten: "rd 10 = 10" using rd_of_int[of 10] by simp
  have cx: "center_coordinate 3602879701896398 = Inr 72057594037927984"
    using py_int_of_int[of 72057594037927984]
    by (simp add: center_coordinate_def float_of_int_def TILE_SIZE_def fin rd_near_2_56 ten)
  have cy: "center_coordinate 0 = Inr 10"
    using center_coordinate_exact[of 0] by (simp add: TILE_SIZE_def)
  have c: "tile_to_pixel_center_double (3602879701896398, 0) = Inr (72057594037927984, 10)"
    by (simp add: tile_to_pixel_center_double_def cx cy)
  have fx: "float_of_int 72057594037927984 = Inr 72057594037927984"
    by (simp add: float_of_int_def fin rd_near_2_56)
  have fy: "float_of_int 10 = Inr 10"
    using float_of_int_exact[of 10] by simp
  have t: "py_int (72057594037927984 / 20) = 3602879701896399"
    by (simp add: py_int_def)
  have m: "float_fmod 72057594037927984 20 = 4"
    unfolding float_fmod_def t by simp
  have r0: "rd 0 = 0" by (simp add: rd_def)
  have d: "float_floordiv 72057594037927984 20 = 3602879701896399"
    unfolding float_floordiv_def m Let_def by (simp add: rd_near_2_56 rd_quotient r0)
  have p: "pixel_to_tile_double (Vector 72057594037927984 10) = (3602879701896399, 0)"
    using py_int_of_int[of 3602879701896399] py_int_of_int[of 0]
    by (simp add: pixel_to_tile_double_def Vector_def TILE_SIZE_def d float_floordiv_ten)
  show ?thesis
    by (simp add: c tile_round_trip_double_def fx fy p)
qed

theorem tile_pixel_round_trip_witness:
  "tile_to_pixel_center_double (13, 22) = Inr (270, 450) \<and>
   tile_round_trip_double (13, 22) = Inr (13, 22) \<and>
   tile_round_trip_double (450359962737049, 0) = Inr (450359962737049, 0)"
  using tile_pixel_round_trip[of 13 22] tile_pixel_round_trip[of 450359962737049 0]
  by (simp add: TILE_SIZE_def tile_to_pixel_center_eq)

section \<open>Horizontal wrap\<close>

text \<open>
  C4. \<open>wrap_position\<close> is idempotent; a position with \<open>0 \<le> x < SCREEN_WIDTH\<close> is
  returned as it is; \<open>x < 0\<close> gives \<open>x = SCREEN_WIDTH - TILE_SIZE / 2\<close>;
  \<open>x \<ge> SCREEN_WIDTH\<close> gives \<open>x = TILE_SIZE / 2\<close>; \<open>y\<close> never changes.
\<close>

theorem wrap_position_spec:
  "wrap_position (wrap_position p) = wrap_position p \<and>
   (0 \<le> vec_x p \<and> vec_x p < of_int SCREEN_WIDTH \<longrightarrow> wrap_position p = p) \<and>
   (vec_x p < 0 \<longrightarrow> vec_x (wrap_position p) = of_int SCREEN_WIDTH - of_int TILE_SIZE / 2) \<and>
   (vec_x p \<ge> of_int SCREEN_WIDTH \<longrightarrow> vec_x (wrap_position p) = of_int TILE_SIZE / 2) \<and>
   vec_y (wrap_position p) = vec_y p"
  by (simp add: wrap_position_def Vector_def SCREEN_WIDTH_def GRID_WIDTH_def TILE_SIZE_def Let_def)

theorem wrap_position_spec_witness:
  "wrap_position (Vector 100 7) = Vector 100 7 \<and>
   vec_x (wrap_position (Vector (-3) 7)) = 550 \<and>
   vec_x (wrap_position (Vector 560 7)) = 10 \<and>
   wrap_position (wrap_position (Vector 560 7)) = wrap_position (Vector 560 7) \<and>
   vec_y (wrap_position (Vector (-3) 7)) = 7"
  using wrap_position_spec[of "Vector 100 7"] wrap_position_spec[of "Vector (-3) 7"]
    wrap_position_spec[of "Vector 560 7"]
  by (simp add: Vector_def SCREEN_WIDTH_def GRID_WIDTH_def TILE_SIZE_def)

section \<open>The collision test of the controller\<close>

lemma hypot_zero_right: "hypot d 0 = \<bar>d\<bar>"
  by (simp add: hypot_def)

text \<open>
  C1, as the code has it. For a player and a ghost of radius 8 each, \<open>_collides\<close>
  returns true when the Euclidean distance of their positions is 0, false when that
  distance is exactly \<open>14 = 8 + 8 - 2\<close>, and false when it is 14.01.
\<close>

theorem collides_threshold:
  "radius a = 8 \<Longrightarrow> radius b = 8 \<Longrightarrow>
   (distance_to (position a) (position b) = 0 \<longrightarrow> collides a b) \<and>
   (distance_to (position a) (position b) = 14 \<longrightarrow> \<not> collides a b) \<and>
   (distance_to (position a) (position b) = 1401 / 100 \<longrightarrow> \<not> collides a b)"
  by (simp add: collides_def)

theorem collides_threshold_witness:
  "collides (Player_init (Vector 100 100)) (Ghost_init (Vector 100 100) ''#FF0000'' 90 0) \<and>
   \<not> collides (Player_init (Vector 100 100)) (Ghost_init (Vector 114 100) ''#FF0000'' 90 0) \<and>
   \<not> collides (Player_init (Vector 100 100))
       (Ghost_init (Vector (11401 / 100) 100) ''#FF0000'' 90 0)"
  using collides_threshold[of "Player_init (Vector 100 100)"
      "Ghost_init (Vector 100 100) ''#FF0000'' 90 0"]
    collides_threshold[of "Player_init (Vector 100 100)"
      "Ghost_init (Vector 114 100) ''#FF0000'' 90 0"]
    collides_threshold[of "Player_init (Vector 100 100)"
      "Ghost_init (Vector (11401 / 100) 100) ''#FF0000'' 90 0"]
  by (simp add: distance_to_def hypot_zero_right Player_init_def Ghost_init_def
      Actor_init_def Vector_def)

text \<open>
  The claim C1 as written says that the test is true at distance exactly 14. A player at
  \<open>(100, 100)\<close> and a ghost at \<open>(114, 100)\<close>, both of radius 8, are at distance 14 and
  do not collide.
\<close>

theorem collides_at_14_counterexample:
  "radius (Player_init (Vector 100 100)) = 8 \<and>
   radius (Ghost_init (Vector 114 100) ''#FF0000'' 90 0) = 8 \<and>
   distance_to (position (Player_init (Vector 100 100)))
               (position (Ghost_init (Vector 114 100) ''#FF0000'' 90 0)) = 14 \<and>
   \<not> collides (Player_init (Vector 100 100)) (Ghost_init (Vector 114 100) ''#FF0000'' 90 0)"
  by (simp add: collides_def distance_to_def hypot_zero_right Player_init_def Ghost_init_def
      Actor_init_def Vector_def)

section \<open>Maze construction\<close>

lemma validate_rows_None:
  "validate_rows row lay w = None \<longleftrightarrow> (\<forall>line \<in> set lay. int (length line) = w)"
  by (induction lay arbitrary: row) auto

lemma find_in_line_None: "find_in_line c row col line = None \<longleftrightarrow> c \<notin> set line"
  by (induction line arbitrary: col) auto

lemma find_in_rows_None:
  "find_in_rows c row lay = None \<longleftrightarrow> (\<forall>line \<in> set lay. c \<notin> set line)"
proof (induction lay arbitrary: row)
  case Nil
  then show ?case by simp
next
  case (Cons line rest)
  show ?case
  proof (cases "find_in_line c row 0 line")
    case None
    then have "c \<notin> set line" by (simp add: find_in_line_None)
    with None Cons show ?thesis by simp
  next
    case (Some t)
    then have "c \<in> set line" using find_in_line_None[of c row 0 line] by auto
    with Some show ?thesis by auto
  qed
qed

lemma Maze_init_Inl_iff:
  "isl (Maze_init lay) \<longleftrightarrow>
     lay = [] \<or> (\<exists>line \<in> set lay. length line \<noteq> length (hd lay)) \<or>
     (\<forall>line \<in> set lay. CHR ''P'' \<notin> set line)"
proof (cases lay)
  case Nil
  then show ?thesis by (simp add: Maze_init_def)
next
  case (Cons first rest)
  show ?thesis
  proof (cases "validate_rows 0 lay (int (length first))")
    case None
    then have same: "\<forall>line \<in> set lay. length line = length first"
      by (simp add: validate_rows_None)
    show ?thesis
    proof (cases "find_character lay CHR ''P''")
      case None2: None
      then have "\<forall>line \<in> set lay. CHR ''P'' \<notin> set line"
        by (simp add: find_character_def find_in_rows_None)
      moreover have "isl (Maze_init lay)"
        using None None2 by (simp add: Maze_init_def Let_def Cons)
      ultimately show ?thesis by blast
    next
      case (Some start)
      then have "\<not> (\<forall>line \<in> set lay. CHR ''P'' \<notin> set line)"
        using find_in_rows_None[of "CHR ''P''" 0 lay] by (simp add: find_character_def)
      moreover have "\<not> isl (Maze_init lay)"
        using None Some by (simp add: Maze_init_def Let_def Cons)
      moreover have "lay \<noteq> []" using Cons by simp
      moreover have "\<not> (\<exists>line \<in> set lay. length line \<noteq> length (hd lay))"
        using same Cons by simp
      ultimately show ?thesis by blast
    qed
  next
    case (Some e)
    then have "\<not> (\<forall>line \<in> set lay. int (length line) = int (length first))"
      using validate_rows_None[of 0 lay "int (length first)"] by simp
    then have "\<exists>line \<in> set lay. length line \<noteq> length (hd lay)"
      using Cons by simp
    moreover have "isl (Maze_init lay)"
      using Some by (simp add: Maze_init_def Let_def Cons)
    ultimately show ?thesis by blast
  qed
qed

text \<open>
  C7. Constructing a maze fails (with one of the constructor's errors) exactly when the
  list of rows is empty, or some row's length differs from the length of the first row, or
  no row contains the player start \<open>P\<close>; for every other layout it succeeds.
\<close>

theorem Maze_init_fails_iff:
  "((\<exists>e. Maze_init lay = Inl e) \<longleftrightarrow>
      lay = [] \<or> (\<exists>line \<in> set lay. length line \<noteq> length (hd lay)) \<or>
      (\<forall>line \<in> set lay. CHR ''P'' \<notin> set line)) \<and>
   (\<not> (lay = [] \<or> (\<exists>line \<in> set lay. length line \<noteq> length (hd lay)) \<or>
        (\<forall>line \<in> set lay. CHR ''P'' \<notin> set line)) \<longrightarrow>
      (\<exists>m. Maze_init lay = Inr m))"
proof -
  have a: "(\<exists>e. Maze_init lay = Inl e) \<longleftrightarrow> isl (Maze_init lay)"
    by (cases "Maze_init lay") auto
  have b: "\<not> isl (Maze_init lay) \<Longrightarrow> \<exists>m. Maze_init lay = Inr m"
    by (cases "Maze_init lay") auto
  show ?thesis
    using a b Maze_init_Inl_iff[of lay] by blast
qed

theorem Maze_init_fails_iff_witness:
  "(\<exists>e. Maze_init [] = Inl e) \<and>
   (\<exists>e. Maze_init [''#P#'', ''##''] = Inl e) \<and>
   (\<exists>e. Maze_init [''#.#'', ''#G#''] = Inl e) \<and>
   (\<exists>m. Maze_init [''#P.#''] = Inr m)"
  using Maze_init_fails_iff[of "[]"] Maze_init_fails_iff[of "[''#P#'', ''##'']"]
    Maze_init_fails_iff[of "[''#.#'', ''#G#'']"] Maze_init_fails_iff[of "[''#P.#'']"]
  by simp

section \<open>Pellets\<close>

lemma scan_line_pellets:
  "t |\<in>| pellets (scan_line row col line ps) \<longleftrightarrow>
     t |\<in>| pellets ps \<or> (\<exists>i < length line. t = (col + int i, row) \<and> line ! i = CHR ''.'')"
proof (induction line arbitrary: col ps)
  case Nil
  then show ?case by simp
next
  case (Cons ch line)
  have split: "\<And>P. (\<exists>i < Suc (length line). P i) \<longleftrightarrow> P 0 \<or> (\<exists>i < length line. P (Suc i))"
    by (metis less_Suc_eq_0_disj)
  show ?case
    by (auto simp add: Cons.IH split add.assoc)
qed

lemma scan_line_power:
  "t |\<in>| power_pellets (scan_line row col line ps) \<longleftrightarrow>
     t |\<in>| power_pellets ps \<or> (\<exists>i < length line. t = (col + int i, row) \<and> line ! i = CHR ''o'')"
proof (induction line arbitrary: col ps)
  case Nil
  then show ?case by simp
next
  case (Cons ch line)
  have split: "\<And>P. (\<exists>i < Suc (length line). P i) \<longleftrightarrow> P 0 \<or> (\<exists>i < length line. P (Suc i))"
    by (metis less_Suc_eq_0_disj)
  show ?case
    by (auto simp add: Cons.IH split add.assoc)
qed

lemma scan_rows_pellets:
  "t |\<in>| pellets (scan_rows row lay ps) \<longleftrightarrow>
     t |\<in>| pellets ps \<or>
     (\<exists>j < length lay. \<exists>i < length (lay ! j). t = (int i, row + int j) \<and> lay ! j ! i = CHR ''.'')"
proof (induction lay arbitrary: row ps)
  case Nil
  then show ?case by simp
next
  case (Cons line lay)
  have split: "\<And>P. (\<exists>j < Suc (length lay). P j) \<longleftrightarrow> P 0 \<or> (\<exists>j < length lay. P (Suc j))"
    by (metis less_Suc_eq_0_disj)
  show ?case
    by (auto simp add: Cons.IH split scan_line_pellets add.assoc)
qed

lemma scan_rows_power:
  "t |\<in>| power_pellets (scan_rows row lay ps) \<longleftrightarrow>
     t |\<in>| power_pellets ps \<or>
     (\<exists>j < length lay. \<exists>i < length (lay ! j). t = (int i, row + int j) \<and> lay ! j ! i = CHR ''o'')"
proof (induction lay arbitrary: row ps)
  case Nil
  then show ?case by simp
next
  case (Cons line lay)
  have split: "\<And>P. (\<exists>j < Suc (length lay). P j) \<longleftrightarrow> P 0 \<or> (\<exists>j < length lay. P (Suc j))"
    by (metis less_Suc_eq_0_disj)
  show ?case
    by (auto simp add: Cons.IH split scan_line_power add.assoc)
qed

lemma from_layout_disjoint:
  "pellets (from_layout lay) |\<inter>| power_pellets (from_layout lay) = {||}"
proof -
  have "\<not> (t |\<in>| pellets (from_layout lay) \<and> t |\<in>| power_pellets (from_layout lay))" for t
    by (auto simp: from_layout_def scan_rows_pellets scan_rows_power)
  then show ?thesis by auto
qed

lemma copy_id: "copy ps = ps"
  by (simp add: copy_def)

lemma Maze_init_pellets:
  "Maze_init lay = Inr m \<Longrightarrow>
   pellet_template m = from_layout lay \<and> cur_pellets m = from_layout lay"
  by (auto simp: Maze_init_def Let_def copy_id split: list.splits option.splits)

lemma apply_ops_snoc: "apply_ops m (ops @ [x]) = apply_op (apply_ops m ops) x"
  by (simp add: apply_ops_def)

lemma apply_op_template: "pellet_template (apply_op m x) = pellet_template m"
  by (cases x) (simp_all add: collect_pellet_def reset_pellets_def)

lemma apply_op_subset:
  "pellets (cur_pellets m) |\<subseteq>| pellets (pellet_template m) \<Longrightarrow>
   pellets (cur_pellets (apply_op m x)) |\<subseteq>| pellets (pellet_template m)"
  "power_pellets (cur_pellets m) |\<subseteq>| power_pellets (pellet_template m) \<Longrightarrow>
   power_pellets (cur_pellets (apply_op m x)) |\<subseteq>| power_pellets (pellet_template m)"
  by (cases x; auto simp: collect_pellet_def reset_pellets_def copy_id)+

lemma apply_ops_inv:
  assumes "Maze_init lay = Inr m0"
  shows "pellet_template (apply_ops m0 ops) = from_layout lay \<and>
         pellets (cur_pellets (apply_ops m0 ops)) |\<subseteq>| pellets (from_layout lay) \<and>
         power_pellets (cur_pellets (apply_ops m0 ops)) |\<subseteq>| power_pellets (from_layout lay)"
proof (induction ops rule: rev_induct)
  case Nil
  then show ?case using Maze_init_pellets[OF assms] by (simp add: apply_ops_def)
next
  case (snoc x ops)
  then show ?case
    using apply_op_subset[of "apply_ops m0 ops" x] apply_op_template[of "apply_ops m0 ops" x]
    by (simp add: apply_ops_snoc)
qed

lemma apply_ops_disjoint:
  assumes "Maze_init lay = Inr m0"
  shows "\<not> (t |\<in>| pellets (cur_pellets (apply_ops m0 ops)) \<and>
            t |\<in>| power_pellets (cur_pellets (apply_ops m0 ops)))"
proof
  assume both: "t |\<in>| pellets (cur_pellets (apply_ops m0 ops)) \<and>
            t |\<in>| power_pellets (cur_pellets (apply_ops m0 ops))"
  then have "t |\<in>| pellets (from_layout lay) \<and> t |\<in>| power_pellets (from_layout lay)"
    using apply_ops_inv[OF assms, of ops] by blast
  then have "t |\<in>| pellets (from_layout lay) |\<inter>| power_pellets (from_layout lay)" by simp
  then show False by (simp add: from_layout_disjoint)
qed

text \<open>
  C8. In every maze state reachable from a successful construction by
  \<open>collect_pellet\<close> and \<open>reset_pellets\<close>, the current plain pellets are a
  subset of the template's plain pellets and the current power pellets a subset of the
  template's power pellets. Construction makes the current sets equal to the template,
  no operation changes the template, \<open>collect_pellet\<close> only removes, and
  \<open>reset_pellets\<close> makes the current sets equal to the template again.
\<close>

theorem pellets_subset_template:
  "Maze_init lay = Inr m0 \<Longrightarrow>
   cur_pellets m0 = pellet_template m0 \<and>
   pellets (cur_pellets (apply_ops m0 ops)) |\<subseteq>| pellets (pellet_template (apply_ops m0 ops)) \<and>
   power_pellets (cur_pellets (apply_ops m0 ops))
     |\<subseteq>| power_pellets (pellet_template (apply_ops m0 ops)) \<and>
   pellet_template (apply_ops m0 ops) = pellet_template m0 \<and>
   pellets (cur_pellets (snd (collect_pellet (apply_ops m0 ops) t)))
     |\<subseteq>| pellets (cur_pellets (apply_ops m0 ops)) \<and>
   power_pellets (cur_pellets (snd (collect_pellet (apply_ops m0 ops) t)))
     |\<subseteq>| power_pellets (cur_pellets (apply_ops m0 ops)) \<and>
   cur_pellets (reset_pellets (apply_ops m0 ops)) = pellet_template (apply_ops m0 ops)"
  using apply_ops_inv[of lay m0 ops] Maze_init_pellets[of lay m0]
  by (auto simp: collect_pellet_def reset_pellets_def copy_id)

text \<open>
  C3. In every reachable maze state and for every tile \<open>t\<close>:
  \<open>collect_pellet\<close> removes \<open>t\<close> from the plain pellets and returns 10 when
  \<open>t\<close> is a plain pellet, removes it from the power pellets and returns 50 when it
  is a power pellet, and otherwise returns 0 and leaves the maze as it is. A second call
  on the same tile returns 0 and changes nothing, and the number of remaining pellets
  stays at or above 0 (it drops by one exactly when a pellet was collected).
\<close>

theorem collect_pellet_spec:
  assumes "Maze_init lay = Inr m0" and "m = apply_ops m0 ops"
  shows "(t |\<in>| pellets (cur_pellets m) \<longrightarrow>
            collect_pellet m t =
              (10, m\<lparr>cur_pellets := (cur_pellets m)\<lparr>pellets := pellets (cur_pellets m) |-| {|t|}\<rparr>\<rparr>)) \<and>
         (t |\<in>| power_pellets (cur_pellets m) \<longrightarrow>
            collect_pellet m t =
              (50, m\<lparr>cur_pellets :=
                      (cur_pellets m)\<lparr>power_pellets := power_pellets (cur_pellets m) |-| {|t|}\<rparr>\<rparr>)) \<and>
         (t |\<notin>| pellets (cur_pellets m) \<and> t |\<notin>| power_pellets (cur_pellets m) \<longrightarrow>
            collect_pellet m t = (0, m)) \<and>
         collect_pellet (snd (collect_pellet m t)) t = (0, snd (collect_pellet m t)) \<and>
         0 \<le> remaining_pellets (snd (collect_pellet m t)) \<and>
         remaining_pellets (snd (collect_pellet m t)) =
           (if fst (collect_pellet m t) = 0 then remaining_pellets m else remaining_pellets m - 1)"
proof -
  have dis: "\<not> (t |\<in>| pellets (cur_pellets m) \<and> t |\<in>| power_pellets (cur_pellets m))"
    using apply_ops_disjoint[OF assms(1), of t ops] assms(2) by simp
  have pos: "t |\<in>| A \<Longrightarrow> int (fcard A - Suc 0) = int (fcard A) - 1" for A :: "tile_pos fset"
    using fcard_0_eq[of A] by (cases "fcard A") auto
  show ?thesis
    using dis by (auto simp: collect_pellet_def remaining_pellets_def pos)
qed

lemma small_maze_init: "Maze_init small_layout = Inr small_maze"
  by (simp add: Maze_init_def from_layout_def find_character_def find_characters_def copy_def
      Let_def small_layout_def small_maze_def)

lemma small_maze_no_ops: "small_maze = apply_ops small_maze []"
  by (simp add: apply_ops_def)

theorem pellets_subset_template_witness:
  "Maze_init small_layout = Inr small_maze \<and>
   cur_pellets (apply_ops small_maze [CollectPellet (2, 1), ResetPellets, CollectPellet (3, 1)]) =
     \<lparr>pellets = {|(2, 1)|}, power_pellets = {||}\<rparr> \<and>
   pellets (cur_pellets
       (apply_ops small_maze [CollectPellet (2, 1), ResetPellets, CollectPellet (3, 1)]))
     |\<subseteq>| pellets (pellet_template
       (apply_ops small_maze [CollectPellet (2, 1), ResetPellets, CollectPellet (3, 1)])) \<and>
   power_pellets (cur_pellets
       (apply_ops small_maze [CollectPellet (2, 1), ResetPellets, CollectPellet (3, 1)]))
     |\<subseteq>| power_pellets (pellet_template
       (apply_ops small_maze [CollectPellet (2, 1), ResetPellets, CollectPellet (3, 1)]))"
proof -
  have run: "cur_pellets
      (apply_ops small_maze [CollectPellet (2, 1), ResetPellets, CollectPellet (3, 1)]) =
     \<lparr>pellets = {|(2, 1)|}, power_pellets = {||}\<rparr>"
    by (simp add: apply_ops_def collect_pellet_def reset_pellets_def copy_def small_maze_def)
  show ?thesis
    using pellets_subset_template[OF small_maze_init,
        of "[CollectPellet (2, 1), ResetPellets, CollectPellet (3, 1)]" "(2, 1)"]
      small_maze_init run
    by blast
qed

theorem collect_pellet_spec_witness:
  "Maze_init small_layout = Inr small_maze \<and>
   fst (collect_pellet small_maze (2, 1)) = 10 \<and>
   fst (collect_pellet (snd (collect_pellet small_maze (2, 1))) (2, 1)) = 0 \<and>
   fst (collect_pellet small_maze (3, 1)) = 50 \<and>
   fst (collect_pellet (snd (collect_pellet small_maze (3, 1))) (3, 1)) = 0 \<and>
   collect_pellet small_maze (1, 1) = (0, small_maze) \<and>
   remaining_pellets (snd (collect_pellet small_maze (2, 1))) = remaining_pellets small_maze - 1"
proof -
  have a: "(2, 1) |\<in>| pellets (cur_pellets small_maze)"
    and b: "(3, 1) |\<in>| power_pellets (cur_pellets small_maze)"
    and c: "(1, 1) |\<notin>| pellets (cur_pellets small_maze)"
      "(1, 1) |\<notin>| power_pellets (cur_pellets small_maze)"
    by (simp_all add: small_maze_def)
  note t1 = collect_pellet_spec[OF small_maze_init small_maze_no_ops, of "(2, 1)"]
  note t2 = collect_pellet_spec[OF small_maze_init small_maze_no_ops, of "(3, 1)"]
  note t3 = collect_pellet_spec[OF small_maze_init small_maze_no_ops, of "(1, 1)"]
  have f: "fst (collect_pellet small_maze (2, 1)) = 10" using t1 a by simp
  have "remaining_pellets (snd (collect_pellet small_maze (2, 1))) =
      (if fst (collect_pellet small_maze (2, 1)) = 0 then remaining_pellets small_maze
       else remaining_pellets small_maze - 1)"
    using t1 by blast
  then have r: "remaining_pellets (snd (collect_pellet small_maze (2, 1))) =
      remaining_pellets small_maze - 1"
    by (simp add: f)
  note f
  moreover have "fst (collect_pellet (snd (collect_pellet small_maze (2, 1))) (2, 1)) = 0"
    using t1 by simp
  moreover have "fst (collect_pellet small_maze (3, 1)) = 50" using t2 b by simp
  moreover have "fst (collect_pellet (snd (collect_pellet small_maze (3, 1))) (3, 1)) = 0"
    using t2 by simp
  moreover have "collect_pellet small_maze (1, 1) = (0, small_maze)" using t3 c by simp
  moreover note r
  ultimately show ?thesis using small_maze_init by simp
qed

section \<open>Turning\<close>

lemma tile_center_vector_eq:
  "tile_center_vector (c, r) = Vector (of_int (20 * c + 10)) (of_int (20 * r + 10))"
  by (simp add: tile_center_vector_def tile_to_pixel_center_eq)

lemma py_mod_20_lt_1:
  "py_mod (x - 20 / 2) 20 < 1 \<longleftrightarrow>
     0 \<le> x - of_int (20 * \<lfloor>x / 20\<rfloor> + 10) \<and> x - of_int (20 * \<lfloor>x / 20\<rfloor> + 10) < 1"
proof -
  define c where "c = \<lfloor>x / 20\<rfloor>"
  have lo: "of_int c * 20 \<le> x" and hi: "x < of_int c * 20 + 20"
    using floor_correct[of "x / 20"] by (simp_all add: c_def field_simps)
  show ?thesis
  proof (cases "of_int c * 20 + 10 \<le> x")
    case True
    then have "\<lfloor>(x - 10) / 20\<rfloor> = c"
      using hi by (intro floor_unique) (simp_all add: field_simps)
    then show ?thesis
      using True lo hi by (simp add: py_mod_def c_def[symmetric])
  next
    case False
    then have "\<lfloor>(x - 10) / 20\<rfloor> = c - 1"
      using lo by (intro floor_unique) (simp_all add: field_simps)
    then show ?thesis
      using False lo hi by (simp add: py_mod_def c_def[symmetric])
  qed
qed

lemma aligned_with_grid_iff:
  "aligned_with_grid a \<longleftrightarrow>
     (let c = tile_center_vector (pixel_to_tile (position a))
      in 0 \<le> vec_x (position a) - vec_x c \<and> vec_x (position a) - vec_x c < 1 \<and>
         0 \<le> vec_y (position a) - vec_y c \<and> vec_y (position a) - vec_y c < 1)"
  using py_mod_20_lt_1[of "vec_x (position a)"] py_mod_20_lt_1[of "vec_y (position a)"]
  by (simp add: aligned_with_grid_def pixel_to_tile_eq tile_center_vector_eq Vector_def
      TILE_SIZE_def Let_def)

text \<open>
  C5, as the code has it. For an actor with a buffered direction: when the buffered
  direction equals the current one, the buffer is cleared and nothing else changes;
  otherwise the turn commits (the direction becomes the buffered one, the buffer is
  cleared) exactly when the actor is grid-aligned and the tile one step from its current
  tile in the buffered direction is not a wall; in every other case the actor is left as it
  is, the buffer pending. Grid-aligned is the code's test: on each axis the position is at
  the center of its tile or less than 1 pixel beyond it in the positive direction.
\<close>

theorem try_change_direction_cases:
  assumes "next_direction a = Some nd"
  shows "(vec_x nd = vec_x (direction a) \<and> vec_y nd = vec_y (direction a) \<longrightarrow>
            try_change_direction m a = a\<lparr>next_direction := None\<rparr>) \<and>
         (\<not> (vec_x nd = vec_x (direction a) \<and> vec_y nd = vec_y (direction a)) \<and>
          aligned_with_grid a \<and>
          \<not> is_wall m (fst (pixel_to_tile (position a)) + py_int (vec_x nd),
                       snd (pixel_to_tile (position a)) + py_int (vec_y nd)) \<longrightarrow>
            try_change_direction m a = a\<lparr>direction := nd, next_direction := None\<rparr>) \<and>
         (\<not> (vec_x nd = vec_x (direction a) \<and> vec_y nd = vec_y (direction a)) \<and>
          \<not> (aligned_with_grid a \<and>
             \<not> is_wall m (fst (pixel_to_tile (position a)) + py_int (vec_x nd),
                          snd (pixel_to_tile (position a)) + py_int (vec_y nd))) \<longrightarrow>
            try_change_direction m a = a) \<and>
         (aligned_with_grid a \<longleftrightarrow>
            (let c = tile_center_vector (pixel_to_tile (position a))
             in 0 \<le> vec_x (position a) - vec_x c \<and> vec_x (position a) - vec_x c < 1 \<and>
                0 \<le> vec_y (position a) - vec_y c \<and> vec_y (position a) - vec_y c < 1))"
  using assms aligned_with_grid_iff[of a]
  by (auto simp: try_change_direction_def Let_def)


lemma aligned_implies_spec_grid_aligned:
  "aligned_with_grid a \<Longrightarrow> spec_grid_aligned (position a)"
  by (auto simp: aligned_with_grid_iff spec_grid_aligned_def Let_def)

lemma is_wall_small_maze:
  "\<not> is_wall small_maze (2, 1)" "is_wall small_maze (1, 0)" "\<not> is_wall small_maze (1, 1)"
  "is_wall small_maze (0, 1)" "\<not> is_wall small_maze (3, 1)"
  by (simp_all add: is_wall_def small_maze_def small_layout_def)

text \<open>
  The claim C5 as written takes grid-aligned to mean an offset of less than 1 pixel from
  the nearest tile center. A player moving left at \<open>(29.5, 30)\<close>, half a pixel
  before the center \<open>(30, 30)\<close> of its tile, with \<open>Right\<close> buffered and an
  open tile to its right, is aligned in that sense; the code does not commit the turn.
\<close>

theorem turn_one_pixel_before_center_counterexample:
  "next_direction (handle_input {''Right''} (Player_init (Vector (59 / 2) 30))) = Some (Vector 1 0) \<and>
   direction (handle_input {''Right''} (Player_init (Vector (59 / 2) 30))) = Vector (-1) 0 \<and>
   pixel_to_tile (position (handle_input {''Right''} (Player_init (Vector (59 / 2) 30)))) = (1, 1) \<and>
   tile_center_vector (1, 1) = Vector 30 30 \<and>
   spec_grid_aligned (position (handle_input {''Right''} (Player_init (Vector (59 / 2) 30)))) \<and>
   \<not> is_wall small_maze (1 + py_int 1, 1 + py_int 0) \<and>
   try_change_direction small_maze (handle_input {''Right''} (Player_init (Vector (59 / 2) 30))) =
     handle_input {''Right''} (Player_init (Vector (59 / 2) 30))"
proof -
  have fl: "\<lfloor>(59 / 2 :: real) / 20\<rfloor> = 1" "\<lfloor>(30 :: real) / 20\<rfloor> = 1"
    "\<lfloor>((59 / 2 :: real) - 10) / 20\<rfloor> = 0"
    by (simp_all add: floor_eq_iff)
  have pi: "py_int 1 = 1" "py_int 0 = 0"
    using py_int_of_int[of 1] py_int_of_int[of 0] by simp_all
  show ?thesis
    using is_wall_small_maze
    by (simp add: handle_input_def Player_init_def Vector_def spec_grid_aligned_def
        pixel_to_tile_eq tile_center_vector_eq fl pi try_change_direction_def
        aligned_with_grid_def py_mod_def TILE_SIZE_def)
qed

theorem try_change_direction_cases_witness:
  "try_change_direction small_maze (handle_input {''Left''} (Player_init (Vector 30 30))) =
     Player_init (Vector 30 30) \<and>
   try_change_direction small_maze (handle_input {''Right''} (Player_init (Vector (61 / 2) 30))) =
     (Player_init (Vector (61 / 2) 30))\<lparr>direction := Vector 1 0\<rparr> \<and>
   try_change_direction small_maze (handle_input {''Up''} (Player_init (Vector (61 / 2) 30))) =
     handle_input {''Up''} (Player_init (Vector (61 / 2) 30)) \<and>
   try_change_direction small_maze (handle_input {''Right''} (Player_init (Vector (59 / 2) 30))) =
     handle_input {''Right''} (Player_init (Vector (59 / 2) 30))"
proof -
  have fl: "\<lfloor>(59 / 2 :: real) / 20\<rfloor> = 1" "\<lfloor>(30 :: real) / 20\<rfloor> = 1"
    "\<lfloor>(61 / 2 :: real) / 20\<rfloor> = 1"
    "\<lfloor>((59 / 2 :: real) - 10) / 20\<rfloor> = 0" "\<lfloor>((61 / 2 :: real) - 10) / 20\<rfloor> = 1"
    "\<lfloor>((30 :: real) - 10) / 20\<rfloor> = 1"
    by (simp_all add: floor_eq_iff)
  have pi: "py_int 1 = 1" "py_int 0 = 0" "py_int (-1) = -1"
    using py_int_of_int[of 1] py_int_of_int[of 0] py_int_of_int[of "-1"] by simp_all
  have al: "aligned_with_grid (handle_input {''Right''} (Player_init (Vector (61 / 2) 30)))"
    "aligned_with_grid (handle_input {''Up''} (Player_init (Vector (61 / 2) 30)))"
    "\<not> aligned_with_grid (handle_input {''Right''} (Player_init (Vector (59 / 2) 30)))"
    by (simp_all add: handle_input_def Player_init_def Vector_def aligned_with_grid_def
        py_mod_def TILE_SIZE_def fl)
  have c1: "try_change_direction small_maze (handle_input {''Left''} (Player_init (Vector 30 30))) =
     Player_init (Vector 30 30)"
    using try_change_direction_cases[of "handle_input {''Left''} (Player_init (Vector 30 30))"
        "Vector (-1) 0" small_maze]
    by (simp add: handle_input_def Player_init_def Vector_def)
  have c2: "try_change_direction small_maze (handle_input {''Right''} (Player_init (Vector (61 / 2) 30))) =
     (Player_init (Vector (61 / 2) 30))\<lparr>direction := Vector 1 0\<rparr>"
    using try_change_direction_cases[of "handle_input {''Right''} (Player_init (Vector (61 / 2) 30))"
        "Vector 1 0" small_maze] al(1) is_wall_small_maze
    by (simp add: handle_input_def Player_init_def Vector_def pixel_to_tile_eq fl pi)
  have c3: "try_change_direction small_maze (handle_input {''Up''} (Player_init (Vector (61 / 2) 30))) =
     handle_input {''Up''} (Player_init (Vector (61 / 2) 30))"
    using try_change_direction_cases[of "handle_input {''Up''} (Player_init (Vector (61 / 2) 30))"
        "Vector 0 (-1)" small_maze] al(2) is_wall_small_maze
    by (simp add: handle_input_def Player_init_def Vector_def pixel_to_tile_eq fl pi)
  have c4: "try_change_direction small_maze (handle_input {''Right''} (Player_init (Vector (59 / 2) 30))) =
     handle_input {''Right''} (Player_init (Vector (59 / 2) 30))"
    using try_change_direction_cases[of "handle_input {''Right''} (Player_init (Vector (59 / 2) 30))"
        "Vector 1 0" small_maze] al(3)
    by (simp add: handle_input_def Player_init_def Vector_def)
  show ?thesis using c1 c2 c3 c4 by simp
qed

section \<open>Ghost wandering\<close>

lemma vector_eq_iff: "(u :: vector) = v \<longleftrightarrow> vec_x u = vec_x v \<and> vec_y u = vec_y v"
  by (cases u, cases v) simp

lemma random_choice_mem: "xs \<noteq> [] \<Longrightarrow> random_choice xs rnd \<in> set xs"
  by (simp add: random_choice_def)

lemma distinct_available_directions: "distinct (available_directions m t)"
  by (simp add: available_directions_def Vector_def)

lemma choose_direction_eq:
  "choose_direction m t rnd g =
     (let avail = available_directions m t;
          opp = Vector (- vec_x (direction g)) (- vec_y (direction g));
          cands = filter (\<lambda>d. d \<noteq> opp) avail
      in if cands \<noteq> [] then random_choice cands rnd
         else if avail \<noteq> [] then random_choice avail rnd
         else opp)"
  by (simp add: choose_direction_def Let_def vector_eq_iff)

lemma singleton_of_distinct:
  assumes "distinct xs" and "set xs = {x}"
  shows "xs = [x]"
proof -
  have "length xs = 1"
    using assms distinct_card[of xs] by simp
  then obtain y where "xs = [y]"
    by (cases xs) auto
  with assms(2) show ?thesis by simp
qed

text \<open>
  C6. The direction a ghost chooses at a tile: when some available direction differs from
  the exact opposite of the heading, the choice is one of those; otherwise, when some
  direction is available at all, the choice is an available direction; otherwise it is the
  opposite of the heading. In a corridor whose only available directions are the heading
  and its opposite, the choice is the heading, whatever the random draw. On a tick where
  the ghost is grid-aligned, \<open>Ghost.update\<close> moves the ghost with that choice as
  its direction.
\<close>

theorem choose_direction_spec:
  "(filter (\<lambda>d. d \<noteq> Vector (- vec_x (direction g)) (- vec_y (direction g)))
        (available_directions m t) \<noteq> [] \<longrightarrow>
      choose_direction m t rnd g \<in> set (available_directions m t) \<and>
      choose_direction m t rnd g \<noteq> Vector (- vec_x (direction g)) (- vec_y (direction g))) \<and>
   (filter (\<lambda>d. d \<noteq> Vector (- vec_x (direction g)) (- vec_y (direction g)))
        (available_directions m t) = [] \<and> available_directions m t \<noteq> [] \<longrightarrow>
      choose_direction m t rnd g \<in> set (available_directions m t)) \<and>
   (available_directions m t = [] \<longrightarrow>
      choose_direction m t rnd g = Vector (- vec_x (direction g)) (- vec_y (direction g))) \<and>
   (set (available_directions m t) =
        {direction g, Vector (- vec_x (direction g)) (- vec_y (direction g))} \<and>
    direction g \<noteq> Vector (- vec_x (direction g)) (- vec_y (direction g)) \<longrightarrow>
      choose_direction m t rnd g = direction g) \<and>
   (aligned_with_grid g \<longrightarrow>
      Ghost_update dt m rnd g =
        Actor_update dt m (g\<lparr>direction := choose_direction m (pixel_to_tile (position g)) rnd g\<rparr>))"
proof -
  define opp where "opp = Vector (- vec_x (direction g)) (- vec_y (direction g))"
  define avail where "avail = available_directions m t"
  define cands where "cands = filter (\<lambda>d. d \<noteq> opp) avail"
  have eq: "choose_direction m t rnd g =
      (if cands \<noteq> [] then random_choice cands rnd
       else if avail \<noteq> [] then random_choice avail rnd else opp)"
    by (simp add: choose_direction_eq Let_def opp_def avail_def cands_def)
  have a: "cands \<noteq> [] \<longrightarrow> choose_direction m t rnd g \<in> set avail \<and> choose_direction m t rnd g \<noteq> opp"
  proof
    assume ne: "cands \<noteq> []"
    then have "random_choice cands rnd \<in> set cands" by (rule random_choice_mem)
    then show "choose_direction m t rnd g \<in> set avail \<and> choose_direction m t rnd g \<noteq> opp"
      using ne by (simp add: eq cands_def)
  qed
  have b: "cands = [] \<and> avail \<noteq> [] \<longrightarrow> choose_direction m t rnd g \<in> set avail"
    by (simp add: eq random_choice_mem)
  have c: "avail = [] \<longrightarrow> choose_direction m t rnd g = opp"
    by (simp add: eq cands_def)
  have d: "set avail = {direction g, opp} \<and> direction g \<noteq> opp \<longrightarrow>
      choose_direction m t rnd g = direction g"
  proof
    assume h: "set avail = {direction g, opp} \<and> direction g \<noteq> opp"
    have "distinct cands"
      by (simp add: cands_def avail_def distinct_available_directions)
    moreover have "set cands = {direction g}"
      using h by (auto simp: cands_def)
    ultimately have "cands = [direction g]" by (rule singleton_of_distinct)
    then show "choose_direction m t rnd g = direction g"
      by (simp add: eq random_choice_def)
  qed
  have e: "aligned_with_grid g \<longrightarrow>
      Ghost_update dt m rnd g =
        Actor_update dt m (g\<lparr>direction := choose_direction m (pixel_to_tile (position g)) rnd g\<rparr>)"
    by (simp add: Ghost_update_def Let_def)
  show ?thesis
    using a b c d e unfolding opp_def avail_def cands_def by blast
qed


lemma py_int_units: "py_int 0 = 0" "py_int 1 = 1" "py_int (- 1) = - 1"
  using py_int_of_int[of 0] py_int_of_int[of 1] py_int_of_int[of "- 1"] by simp_all

lemma available_directions_small_maze:
  "available_directions small_maze (2, 1) = [Vector 1 0, Vector (- 1) 0]"
  "available_directions small_maze (3, 1) = [Vector (- 1) 0]"
  "available_directions small_maze (0, 0) = []"
  by (simp_all add: available_directions_def is_wall_def small_maze_def small_layout_def
      Vector_def py_int_units)

lemma Ghost_init_direction: "direction (Ghost_init pos col spd 0) = Vector 1 0"
  by (simp add: Ghost_init_def Actor_init_def random_choice_def DIRECTIONS_def)

theorem choose_direction_spec_witness:
  "available_directions small_maze (2, 1) = [Vector 1 0, Vector (- 1) 0] \<and>
   direction (Ghost_init (Vector 50 30) ''#FF0000'' 90 0) = Vector 1 0 \<and>
   choose_direction small_maze (2, 1) 7 (Ghost_init (Vector 50 30) ''#FF0000'' 90 0) = Vector 1 0 \<and>
   available_directions small_maze (3, 1) = [Vector (- 1) 0] \<and>
   choose_direction small_maze (3, 1) 7 (Ghost_init (Vector 70 30) ''#FF0000'' 90 0) = Vector (- 1) 0 \<and>
   available_directions small_maze (0, 0) = [] \<and>
   choose_direction small_maze (0, 0) 7 (Ghost_init (Vector 10 10) ''#FF0000'' 90 0) = Vector (- 1) 0"
proof -
  note av = available_directions_small_maze
  have c1: "choose_direction small_maze (2, 1) 7 (Ghost_init (Vector 50 30) ''#FF0000'' 90 0) =
      Vector 1 0"
    using choose_direction_spec[of "Ghost_init (Vector 50 30) ''#FF0000'' 90 0" small_maze
        "(2, 1)" 7 0]
    by (simp add: av Ghost_init_direction Vector_def)
  have c2: "choose_direction small_maze (3, 1) 7 (Ghost_init (Vector 70 30) ''#FF0000'' 90 0) =
      Vector (- 1) 0"
    using choose_direction_spec[of "Ghost_init (Vector 70 30) ''#FF0000'' 90 0" small_maze
        "(3, 1)" 7 0]
    by (simp add: av Ghost_init_direction Vector_def)
  have c3: "choose_direction small_maze (0, 0) 7 (Ghost_init (Vector 10 10) ''#FF0000'' 90 0) =
      Vector (- 1) 0"
    using choose_direction_spec[of "Ghost_init (Vector 10 10) ''#FF0000'' 90 0" small_maze
        "(0, 0)" 7 0]
    by (simp add: av Ghost_init_direction Vector_def)
  show ?thesis
    using c1 c2 c3 av Ghost_init_direction by simp
qed

section \<open>Movement and walls\<close>

lemma floor_div_20: "\<lfloor>(x::real) / 20\<rfloor> = c \<longleftrightarrow> of_int c * 20 \<le> x \<and> x < of_int c * 20 + 20"
  by (simp add: floor_eq_iff field_simps)

lemma corner_covers_own_tile:
  assumes "0 \<le> (r::real)" and "r < 10"
  shows "\<lfloor>(x - r) / 20\<rfloor> = \<lfloor>x / 20\<rfloor> \<or> \<lfloor>(x + r) / 20\<rfloor> = \<lfloor>x / 20\<rfloor>"
proof -
  define c where "c = \<lfloor>x / 20\<rfloor>"
  have b: "of_int c * 20 \<le> x" "x < of_int c * 20 + 20"
    using floor_div_20[of x c] by (simp_all add: c_def)
  show ?thesis
  proof (cases "of_int c * 20 + r \<le> x")
    case True
    then have "\<lfloor>(x - r) / 20\<rfloor> = c"
      using b assms by (simp add: floor_div_20)
    then show ?thesis by (simp add: c_def)
  next
    case False
    then have "\<lfloor>(x + r) / 20\<rfloor> = c"
      using b assms by (simp add: floor_div_20)
    then show ?thesis by (simp add: c_def)
  qed
qed

lemma center_corner_tile:
  assumes "0 \<le> (r::real)" and "r < 10"
  shows "\<lfloor>(of_int (20 * c + 10) + r) / 20\<rfloor> = c" "\<lfloor>(of_int (20 * c + 10) - r) / 20\<rfloor> = c"
    "\<lfloor>(of_int (20 * c + 10) + - r) / 20\<rfloor> = c"
  using assms by (simp_all add: floor_div_20)

lemma collides_with_wall_eq:
  "collides_with_wall m p r \<longleftrightarrow>
     is_wall m (\<lfloor>(vec_x p - r) / 20\<rfloor>, \<lfloor>(vec_y p - r) / 20\<rfloor>) \<or>
     is_wall m (\<lfloor>(vec_x p + r) / 20\<rfloor>, \<lfloor>(vec_y p - r) / 20\<rfloor>) \<or>
     is_wall m (\<lfloor>(vec_x p - r) / 20\<rfloor>, \<lfloor>(vec_y p + r) / 20\<rfloor>) \<or>
     is_wall m (\<lfloor>(vec_x p + r) / 20\<rfloor>, \<lfloor>(vec_y p + r) / 20\<rfloor>)"
  by (simp add: collides_with_wall_def pixel_to_tile_eq vadd_def Vector_def)

lemma own_tile_free:
  assumes "0 \<le> r" and "r < 10" and "\<not> collides_with_wall m p r"
  shows "\<not> is_wall m (pixel_to_tile p)"
  using assms(3) corner_covers_own_tile[OF assms(1,2), of "vec_x p"]
    corner_covers_own_tile[OF assms(1,2), of "vec_y p"]
  by (auto simp: collides_with_wall_eq pixel_to_tile_eq)

lemma center_free:
  assumes "0 \<le> r" and "r < 10" and "\<not> is_wall m t"
  shows "\<not> collides_with_wall m (tile_center_vector t) r"
proof (cases t)
  case (Pair c d)
  then show ?thesis
    using assms(3) center_corner_tile[OF assms(1,2)]
    by (simp add: collides_with_wall_eq tile_center_vector_eq Vector_def)
qed

lemma is_wall_out_of_bounds: "x < 0 \<or> width m \<le> x \<Longrightarrow> is_wall m (x, y)"
  by (auto simp: is_wall_def)

lemma no_wrap_when_free:
  assumes "width m \<le> GRID_WIDTH" and "0 \<le> r" and "\<not> collides_with_wall m p r"
  shows "wrap_position p = p"
proof -
  have "\<not> is_wall m (\<lfloor>(vec_x p - r) / 20\<rfloor>, \<lfloor>(vec_y p - r) / 20\<rfloor>)"
    using assms(3) by (simp add: collides_with_wall_eq)
  then have lo: "0 \<le> \<lfloor>(vec_x p - r) / 20\<rfloor>"
    using is_wall_out_of_bounds[of "\<lfloor>(vec_x p - r) / 20\<rfloor>" m] by fastforce
  have "\<not> is_wall m (\<lfloor>(vec_x p + r) / 20\<rfloor>, \<lfloor>(vec_y p - r) / 20\<rfloor>)"
    using assms(3) by (simp add: collides_with_wall_eq)
  then have hi: "\<lfloor>(vec_x p + r) / 20\<rfloor> < width m"
    using is_wall_out_of_bounds[of "\<lfloor>(vec_x p + r) / 20\<rfloor>" m] by fastforce
  have "0 \<le> (vec_x p - r) / 20"
    using lo by (simp add: zero_le_floor)
  then have x0: "0 \<le> vec_x p" using assms(2) by simp
  have "\<lfloor>(vec_x p + r) / 20\<rfloor> < (28::int)"
    using hi assms(1) unfolding GRID_WIDTH_def by linarith
  then have "(vec_x p + r) / 20 < 28"
    by (simp add: floor_less_iff)
  then have x1: "vec_x p < 560" using assms(2) by simp
  show ?thesis
    using x0 x1
    by (simp add: wrap_position_def Vector_def SCREEN_WIDTH_def GRID_WIDTH_def TILE_SIZE_def Let_def)
qed

lemma try_change_direction_keeps:
  "position (try_change_direction m a) = position a"
  "radius (try_change_direction m a) = radius a"
  by (simp_all add: try_change_direction_def Let_def split: option.splits)

lemma Actor_update_radius: "radius (Actor_update dt m a) = radius a"
  by (simp add: Actor_update_def Let_def stop_at_wall_def try_change_direction_keeps)

lemma stop_at_wall_position:
  "position (stop_at_wall m a) = tile_center_vector (pixel_to_tile (position a))"
  by (simp add: stop_at_wall_def tile_center_vector_def Let_def)

lemma Actor_update_clear:
  assumes w: "width m \<le> GRID_WIDTH" and r: "0 \<le> radius a" "radius a < 10"
    and free: "\<not> collides_with_wall m (position a) (of_int (radius a))"
  shows "\<not> collides_with_wall m (position (Actor_update dt m a)) (of_int (radius a))"
proof -
  define a1 where "a1 = (if next_direction a \<noteq> None then try_change_direction m a else a)"
  define np where "np = vadd (position a1) (vmul (direction a1) (speed a1 * dt))"
  define a2 where "a2 = (if \<not> collides_with_wall m np (of_int (radius a1))
                then a1\<lparr>position := np\<rparr> else stop_at_wall m a1)"
  have a1: "position a1 = position a" "radius a1 = radius a"
    by (simp_all add: a1_def try_change_direction_keeps)
  have rr: "(0::real) \<le> of_int (radius a)" "(of_int (radius a) :: real) < 10"
    using r by simp_all
  have upd: "position (Actor_update dt m a) = wrap_position (position a2)"
    by (simp add: Actor_update_def Let_def a1_def np_def a2_def)
  have free2: "\<not> collides_with_wall m (position a2) (of_int (radius a))"
  proof (cases "collides_with_wall m np (of_int (radius a1))")
    case False
    then show ?thesis by (simp add: a2_def a1)
  next
    case True
    then have "position a2 = tile_center_vector (pixel_to_tile (position a))"
      by (simp add: a2_def stop_at_wall_position a1)
    moreover have "\<not> is_wall m (pixel_to_tile (position a))"
      using own_tile_free[OF rr free] .
    ultimately show ?thesis
      using center_free[OF rr] by simp
  qed
  then have "wrap_position (position a2) = position a2"
    using no_wrap_when_free[OF w rr(1)] by simp
  with free2 upd show ?thesis by simp
qed

lemma game_layout_fits:
  "\<exists>m. Maze_init MAZE_LAYOUT = Inr m \<and> width m \<le> GRID_WIDTH"
proof -
  have "\<not> isl (Maze_init MAZE_LAYOUT)"
    by (simp add: Maze_init_Inl_iff MAZE_LAYOUT_def)
  then obtain m where m: "Maze_init MAZE_LAYOUT = Inr m"
    by (cases "Maze_init MAZE_LAYOUT") auto
  then have "width m = 28"
    by (auto simp: Maze_init_def Let_def MAZE_LAYOUT_def split: option.splits)
  with m show ?thesis by (simp add: GRID_WIDTH_def)
qed

section \<open>Losing a life\<close>

lemma reset_ghosts_positions:
  "length gs = length starts \<Longrightarrow>
   map position (reset_ghosts gs starts) = map tile_center_vector starts"
  by (induction gs starts rule: reset_ghosts.induct) simp_all

lemma reset_ghosts_length: "length (reset_ghosts gs starts) = length gs"
  by (induction gs starts rule: reset_ghosts.induct) simp_all

lemma collision_loop_hit:
  assumes "\<exists>gh \<in> set gs. collides p gh" and "0 < lives g - 1"
  shows "collision_loop p g gs = reset_positions (g\<lparr>lives := lives g - 1\<rparr>)"
  using assms by (induction gs) (auto simp: Let_def)

lemma collision_loop_cut:
  "collides p gh \<Longrightarrow> collision_loop p g (before @ gh # after) = collision_loop p g (before @ [gh])"
  by (induction before) (simp_all add: Let_def)

lemma move_and_collect_fields:
  "player (move_and_collect dt rnd p g) =
     Some (Player_update dt (maze g) (handle_input (pressed_keys g) p))"
  "length (ghosts (move_and_collect dt rnd p g)) = length (ghosts g)"
  "level (move_and_collect dt rnd p g) = level g"
  "lives (move_and_collect dt rnd p g) = lives g"
  "state (move_and_collect dt rnd p g) = state g"
  "player_start (maze (move_and_collect dt rnd p g)) = player_start (maze g)"
  "ghost_starts (maze (move_and_collect dt rnd p g)) = ghost_starts (maze g)"
  by (simp_all add: move_and_collect_def Let_def collect_pellet_def)

text \<open>
  Every state the controller reaches from \<open>Game.__init__\<close> has a player and one
  ghost per spawn point of the maze (\<open>reachable_ghost_count\<close> below):
  \<open>_create_entities\<close> makes them so, and no event changes their number.
\<close>

lemma create_entities_fields:
  "length (ghosts (create_entities rnd g)) = length (ghost_spawn_points (maze g))"
  "maze (create_entities rnd g) = maze g"
  "\<exists>q. player (create_entities rnd g) = Some q"
  by (simp_all add: create_entities_def Let_def)

lemma reset_positions_fields:
  "length (ghosts (reset_positions g)) = length (ghosts g)"
  "maze (reset_positions g) = maze g"
  "\<exists>q. player g = Some q \<Longrightarrow> \<exists>q. player (reset_positions g) = Some q"
  by (auto simp: reset_positions_def reset_ghosts_length split: option.splits)

lemma collision_loop_fields:
  "length (ghosts (collision_loop p g gs)) = length (ghosts g)"
  "maze (collision_loop p g gs) = maze g"
  "\<exists>q. player g = Some q \<Longrightarrow> \<exists>q. player (collision_loop p g gs) = Some q"
  by (induction gs) (auto simp: Let_def reset_positions_fields)

lemma Game_update_ghost_count:
  assumes "length (ghosts g) = length (ghost_spawn_points (maze g))" and "\<exists>q. player g = Some q"
  shows "length (ghosts (Game_update dt rnd g)) =
           length (ghost_spawn_points (maze (Game_update dt rnd g))) \<and>
         (\<exists>q. player (Game_update dt rnd g) = Some q)"
proof -
  obtain p where p: "player g = Some p" using assms(2) by auto
  define g1 where "g1 = move_and_collect dt rnd p g"
  have f: "length (ghosts g1) = length (ghosts g)"
    "ghost_starts (maze g1) = ghost_starts (maze g)" "\<exists>q. player g1 = Some q"
    by (simp_all add: g1_def move_and_collect_fields)
  show ?thesis
  proof (cases "remaining_pellets (maze g1) = 0")
    case True
    then show ?thesis
      by (simp add: Game_update_def p g1_def[symmetric] Let_def create_entities_fields
          ghost_spawn_points_def reset_pellets_def)
  next
    case False
    then show ?thesis
      using f assms(1)
      by (auto simp: Game_update_def p g1_def[symmetric] Let_def collision_loop_fields
          ghost_spawn_points_def)
  qed
qed

lemma handle_event_ghost_count:
  assumes "length (ghosts g) = length (ghost_spawn_points (maze g))" and "\<exists>q. player g = Some q"
  shows "length (ghosts (handle_event g ev)) =
           length (ghost_spawn_points (maze (handle_event g ev))) \<and>
         (\<exists>q. player (handle_event g ev) = Some q)"
proof (cases ev)
  case (Tick dt rnd)
  then show ?thesis
    using assms Game_update_ghost_count[OF assms, of dt rnd] by (simp add: frame_def)
next
  case (KeyPress key rnd)
  have "length (ghosts (start_new_game rnd g)) =
          length (ghost_spawn_points (maze (start_new_game rnd g))) \<and>
        (\<exists>q. player (start_new_game rnd g) = Some q)"
    by (simp add: start_new_game_def create_entities_fields ghost_spawn_points_def
        reset_pellets_def)
  then show ?thesis
    using assms KeyPress by (simp add: on_key_press_def)
next
  case (KeyRelease key)
  then show ?thesis using assms by (simp add: on_key_release_def)
qed

lemma Game_init_succeeds: "\<exists>g0. Game_init rnd0 = Inr g0"
  using game_layout_fits by (auto simp: Game_init_def)

lemma reachable_ghost_count:
  assumes "Game_init rnd0 = Inr g0"
  shows "length (ghosts (run_events g0 evs)) =
           length (ghost_spawn_points (maze (run_events g0 evs))) \<and>
         (\<exists>q. player (run_events g0 evs) = Some q)"
proof (induction evs rule: rev_induct)
  case Nil
  then show ?case
    using assms
    by (auto simp: Game_init_def run_events_def create_entities_fields split: sum.splits)
next
  case (snoc ev evs)
  then show ?case
    using handle_event_ghost_count[of "run_events g0 evs" ev]
    by (simp add: run_events_def)
qed

lemma map_enumerate_snd: "map (\<lambda>(i, s). f s) (enumerate n xs) = map f xs"
  by (induction xs arbitrary: n) simp_all

lemma create_entities_positions:
  "map_option position (player (create_entities rnd g)) =
     Some (tile_center_vector (player_start (maze g)))"
  "map position (ghosts (create_entities rnd g)) =
     map tile_center_vector (ghost_spawn_points (maze g))"
proof -
  show "map_option position (player (create_entities rnd g)) =
     Some (tile_center_vector (player_start (maze g)))"
    by (simp add: create_entities_def Let_def Player_init_def)
  have "map position (ghosts (create_entities rnd g)) =
      map (\<lambda>(i, s). tile_center_vector s) (enumerate 0 (ghost_spawn_points (maze g)))"
    by (simp add: create_entities_def Let_def Ghost_init_def Actor_init_def split_def)
  then show "map position (ghosts (create_entities rnd g)) =
     map tile_center_vector (ghost_spawn_points (maze g))"
    by (simp add: map_enumerate_snd)
qed

text \<open>
  C9. A tick in the state \<open>PLAYING\<close> of a controller with one ghost per spawn point,
  in which some ghost collides with the moved player, and with more than one life left.
  The state stays \<open>PLAYING\<close>, and the player and every ghost stand at the pixel
  centers of their start tiles. When pellets remain after the collection (otherwise the tick
  is a level change and no collision is handled), the tick is the position reset applied to
  the state after movement and collection with one life less: the score and the current
  pellets are those after the collection, the level is unchanged, the lives drop by exactly
  one, and the ghosts after a colliding one play no part in the result (the loop ends at the
  first collision).
\<close>

theorem collision_with_lives_left:
  assumes "running g" and "state g = PLAYING" and "player g = Some p"
    and "length (ghosts g) = length (ghost_spawn_points (maze g))"
    and "g1 = move_and_collect dt rnd p g"
    and "player g1 = Some p1"
    and "\<exists>gh \<in> set (ghosts g1). collides p1 gh"
    and "0 < lives g - 1"
  shows "state (frame dt rnd g) = PLAYING \<and>
         map_option position (player (frame dt rnd g)) =
           Some (tile_center_vector (player_start (maze g))) \<and>
         map position (ghosts (frame dt rnd g)) =
           map tile_center_vector (ghost_spawn_points (maze g)) \<and>
         (remaining_pellets (maze g1) \<noteq> 0 \<longrightarrow>
            score (frame dt rnd g) = score g1 \<and>
            level (frame dt rnd g) = level g \<and>
            cur_pellets (maze (frame dt rnd g)) = cur_pellets (maze g1) \<and>
            lives (frame dt rnd g) = lives g - 1 \<and>
            (\<forall>before gh after. ghosts g1 = before @ gh # after \<and> collides p1 gh \<longrightarrow>
               collision_loop p1 g1 (before @ [gh]) = frame dt rnd g) \<and>
            frame dt rnd g = reset_positions (g1\<lparr>lives := lives g - 1\<rparr>))"
proof -
  have l: "lives g1 = lives g" and st: "state g1 = state g" and lv: "level g1 = level g"
    and ps: "player_start (maze g1) = player_start (maze g)"
    and gs: "ghost_starts (maze g1) = ghost_starts (maze g)"
    and len: "length (ghosts g1) = length (ghosts g)"
    by (simp_all add: assms(5) move_and_collect_fields)
  show ?thesis
  proof (cases "remaining_pellets (maze g1) = 0")
    case True
    have fr: "frame dt rnd g =
        (create_entities (\<lambda>i. rnd (length (ghosts g1) + i))
           (g1\<lparr>level := level g1 + 1, maze := reset_pellets (maze g1)\<rparr>))\<lparr>walls_drawn := False\<rparr>"
      using assms(1,2,3) True
      by (simp add: frame_def Game_update_def Let_def assms(5)[symmetric])
    have s2: "state (create_entities (\<lambda>i. rnd (length (ghosts g1) + i))
           (g1\<lparr>level := level g1 + 1, maze := reset_pellets (maze g1)\<rparr>)) = PLAYING"
      using assms(2) by (simp add: create_entities_def Let_def st)
    have m2: "player_start (reset_pellets (maze g1)) = player_start (maze g)"
      "ghost_spawn_points (reset_pellets (maze g1)) = ghost_spawn_points (maze g)"
      by (simp_all add: reset_pellets_def ghost_spawn_points_def ps gs)
    show ?thesis
      using True s2
        create_entities_positions[of "\<lambda>i. rnd (length (ghosts g1) + i)"
          "g1\<lparr>level := level g1 + 1, maze := reset_pellets (maze g1)\<rparr>"]
      by (simp add: fr m2)
  next
    case False
    have upd: "Game_update dt rnd g = collision_loop p1 g1 (ghosts g1)"
      using assms(3,6) False by (simp add: Game_update_def Let_def assms(5)[symmetric])
    have fr: "frame dt rnd g = collision_loop p1 g1 (ghosts g1)"
      using assms(1,2) upd by (simp add: frame_def)
    have hit: "collision_loop p1 g1 (ghosts g1) = reset_positions (g1\<lparr>lives := lives g - 1\<rparr>)"
      using collision_loop_hit[of "ghosts g1" p1 g1] assms(7,8) l by simp
    have res: "frame dt rnd g = reset_positions (g1\<lparr>lives := lives g - 1\<rparr>)"
      using fr hit by simp
    have cut: "\<forall>before gh after. ghosts g1 = before @ gh # after \<and> collides p1 gh \<longrightarrow>
              collision_loop p1 g1 (before @ [gh]) = frame dt rnd g"
      using collision_loop_cut[of p1 _ g1] fr by metis
    have pos: "map position (reset_ghosts (ghosts g1) (ghost_starts (maze g))) =
        map tile_center_vector (ghost_starts (maze g))"
      using reset_ghosts_positions[of "ghosts g1" "ghost_starts (maze g)"] len assms(4)
      by (simp add: ghost_spawn_points_def)
    show ?thesis
      using cut pos assms(2,6)
      by (simp add: res reset_positions_def st lv ps gs ghost_spawn_points_def)
  qed
qed

lemma small_game_player_moved:
  "Player_update (1 / 60) small_maze (handle_input {} (Player_init (Vector 50 30))) =
     (Player_init (Vector 48 30))\<lparr>mouth_time := 1 / 60\<rparr>"
proof -
  have free: "\<not> collides_with_wall small_maze (Vector 48 30) 8"
    using is_wall_small_maze by (simp add: collides_with_wall_eq Vector_def)
  have fl: "\<lfloor>(1 / 60 :: real) / (4 / 10)\<rfloor> = 0"
    by (simp add: floor_eq_iff)
  show ?thesis
    using free
    by (simp add: Player_update_def Actor_update_def handle_input_def Player_init_def Let_def
        vadd_def vmul_def Vector_def wrap_position_def SCREEN_WIDTH_def GRID_WIDTH_def
        TILE_SIZE_def is_zero_def py_mod_def fl)
qed

lemma small_game_ghost_moved:
  "Ghost_update (1 / 60) small_maze 0 (Ghost_init (Vector 56 30) ''#FF0000'' 90 0) =
     (Ghost_init (Vector (115 / 2) 30) ''#FF0000'' 90 0)"
proof -
  have free: "\<not> collides_with_wall small_maze (Vector (115 / 2) 30) 8"
    using is_wall_small_maze by (simp add: collides_with_wall_eq Vector_def)
  have fl: "\<lfloor>((56 :: real) - 10) / 20\<rfloor> = 2"
    by (simp add: floor_eq_iff)
  have na: "\<not> aligned_with_grid (Ghost_init (Vector 56 30) ''#FF0000'' 90 0)"
    by (simp add: aligned_with_grid_def Ghost_init_def Actor_init_def Vector_def py_mod_def
        TILE_SIZE_def fl)
  show ?thesis
    using free na
    by (simp add: Ghost_update_def Actor_update_def Ghost_init_def Actor_init_def Let_def
        vadd_def vmul_def Vector_def wrap_position_def SCREEN_WIDTH_def GRID_WIDTH_def
        TILE_SIZE_def random_choice_def DIRECTIONS_def)
qed

lemma small_game_moved:
  "move_and_collect (1 / 60) (\<lambda>i. 0) (Player_init (Vector 50 30)) small_game =
     small_game
       \<lparr>maze := small_maze\<lparr>cur_pellets := \<lparr>pellets = {||}, power_pellets = {|(3, 1)|}\<rparr>\<rparr>,
        score := 10,
        player := Some ((Player_init (Vector 48 30))\<lparr>mouth_time := 1 / 60\<rparr>),
        ghosts := [Ghost_init (Vector (115 / 2) 30) ''#FF0000'' 90 0]\<rparr>"
proof -
  have t: "pixel_to_tile (Vector 48 30) = (2, 1)"
    by (simp add: pixel_to_tile_eq Vector_def)
  have c: "collect_pellet small_maze (2, 1) =
      (10, small_maze\<lparr>cur_pellets := \<lparr>pellets = {||}, power_pellets = {|(3, 1)|}\<rparr>\<rparr>)"
    by (simp add: collect_pellet_def small_maze_def)
  have m: "maze small_game = small_maze" "pressed_keys small_game = {}"
    "ghosts small_game = [Ghost_init (Vector 56 30) ''#FF0000'' 90 0]" "score small_game = 0"
    by (simp_all add: small_game_def)
  have pp: "position ((Player_init (Vector 48 30))\<lparr>mouth_time := 1 / 60\<rparr>) = Vector 48 30"
    by (simp add: Player_init_def)
  show ?thesis
    by (simp add: move_and_collect_def Let_def m small_game_player_moved small_game_ghost_moved
        pp t c)
qed

theorem collision_with_lives_left_witness:
  "state (frame (1 / 60) (\<lambda>i. 0) small_game) = PLAYING \<and>
   lives small_game = 3 \<and>
   lives (frame (1 / 60) (\<lambda>i. 0) small_game) = 2 \<and>
   score (frame (1 / 60) (\<lambda>i. 0) small_game) = 10 \<and>
   level (frame (1 / 60) (\<lambda>i. 0) small_game) = 1 \<and>
   cur_pellets (maze (frame (1 / 60) (\<lambda>i. 0) small_game)) =
     \<lparr>pellets = {||}, power_pellets = {|(3, 1)|}\<rparr> \<and>
   map_option position (player (frame (1 / 60) (\<lambda>i. 0) small_game)) = Some (Vector 30 30) \<and>
   map position (ghosts (frame (1 / 60) (\<lambda>i. 0) small_game)) = [Vector 30 30]"
proof -
  let ?g1 = "move_and_collect (1 / 60) (\<lambda>i. 0) (Player_init (Vector 50 30)) small_game"
  let ?p1 = "(Player_init (Vector 48 30))\<lparr>mouth_time := 1 / 60\<rparr>"
  have h1: "running small_game" and h2: "state small_game = PLAYING"
    and h3: "player small_game = Some (Player_init (Vector 50 30))"
    and h4: "length (ghosts small_game) = length (ghost_spawn_points (maze small_game))"
    and h9: "0 < lives small_game - 1"
    by (simp_all add: small_game_def small_maze_def ghost_spawn_points_def)
  have h6: "player ?g1 = Some ?p1"
    by (simp add: small_game_moved)
  have h7: "remaining_pellets (maze ?g1) \<noteq> 0"
    by (simp add: small_game_moved remaining_pellets_def fcard_finsert_if)
  have hyp: "hypot (- (19 / 2)) 0 < 14"
    by (simp add: hypot_zero_right)
  have "collides ?p1 (Ghost_init (Vector (115 / 2) 30) ''#FF0000'' 90 0)"
    using hyp
    by (simp add: collides_def distance_to_def Player_init_def Ghost_init_def Actor_init_def
        Vector_def)
  then have h8: "\<exists>gh \<in> set (ghosts ?g1). collides ?p1 gh"
    by (simp add: small_game_moved)
  note t = collision_with_lives_left[OF h1 h2 h3 h4 refl h6 h8 h9]
  have a: "state (frame (1 / 60) (\<lambda>i. 0) small_game) = PLAYING"
    "map_option position (player (frame (1 / 60) (\<lambda>i. 0) small_game)) =
       Some (tile_center_vector (player_start (maze small_game)))"
    "map position (ghosts (frame (1 / 60) (\<lambda>i. 0) small_game)) =
       map tile_center_vector (ghost_spawn_points (maze small_game))"
    using t by blast+
  have b: "score (frame (1 / 60) (\<lambda>i. 0) small_game) = score ?g1"
    "level (frame (1 / 60) (\<lambda>i. 0) small_game) = level small_game"
    "cur_pellets (maze (frame (1 / 60) (\<lambda>i. 0) small_game)) = cur_pellets (maze ?g1)"
    "lives (frame (1 / 60) (\<lambda>i. 0) small_game) = lives small_game - 1"
    using t h7 by blast+
  have c: "tile_center_vector (1, 1) = Vector 30 30"
    by (simp add: tile_center_vector_eq)
  have f: "lives small_game = 3" "level small_game = 1"
    "player_start (maze small_game) = (1, 1)"
    "ghost_spawn_points (maze small_game) = [(1, 1)]"
    by (simp_all add: small_game_def small_maze_def ghost_spawn_points_def)
  have g: "score ?g1 = 10"
    "cur_pellets (maze ?g1) = \<lparr>pellets = {||}, power_pellets = {|(3, 1)|}\<rparr>"
    by (simp_all add: small_game_moved)
  show ?thesis
    using a b by (simp add: f g c)
qed

section \<open>Actors stay clear of walls\<close>

lemma game_maze_init: "Maze_init MAZE_LAYOUT = Inr game_maze"
  by (simp add: Maze_init_def MAZE_LAYOUT_def game_maze_def find_character_def
      find_characters_def copy_id Let_def)


lemma Game_init_game_maze: "Game_init rnd0 = Inr g0 \<Longrightarrow> maze g0 = game_maze"
  by (auto simp: Game_init_def game_maze_init create_entities_fields)

lemma move_and_collect_width:
  "width (maze (move_and_collect dt rnd p g)) = width (maze g)"
  by (simp add: move_and_collect_def Let_def collect_pellet_def)

lemma Game_update_width: "width (maze (Game_update dt rnd g)) = width (maze g)"
proof (cases "player g")
  case None
  then show ?thesis by (simp add: Game_update_def)
next
  case (Some p)
  define g1 where "g1 = move_and_collect dt rnd p g"
  have w: "width (maze g1) = width (maze g)"
    by (simp add: g1_def move_and_collect_width)
  show ?thesis
    using w
    by (auto simp: Game_update_def Some g1_def[symmetric] Let_def create_entities_fields
        collision_loop_fields reset_pellets_def split: option.splits)
qed

lemma handle_event_width: "width (maze (handle_event g ev)) = width (maze g)"
proof (cases ev)
  case (Tick dt rnd)
  then show ?thesis by (simp add: frame_def Game_update_width)
next
  case (KeyPress key rnd)
  have "width (maze (start_new_game rnd g)) = width (maze g)"
    by (simp add: start_new_game_def create_entities_fields reset_pellets_def)
  then show ?thesis using KeyPress by (simp add: on_key_press_def)
next
  case (KeyRelease key)
  then show ?thesis by (simp add: on_key_release_def)
qed

lemma reachable_maze_width:
  assumes "Game_init rnd0 = Inr g0"
  shows "width (maze (run_events g0 evs)) \<le> GRID_WIDTH"
proof -
  have "width (maze (run_events g0 evs)) = width (maze g0)"
    by (induction evs rule: rev_induct) (simp_all add: run_events_def handle_event_width)
  then show ?thesis
    using Game_init_game_maze[OF assms] by (simp add: game_maze_def GRID_WIDTH_def)
qed

lemma Actor_update_result_Inr:
  "Actor_update_result dt m a = Inr b \<Longrightarrow> b = Actor_update dt m a"
  by (simp add: Actor_update_result_def Let_def split: if_splits)

lemma run_ticks_result_clear:
  assumes "width m \<le> GRID_WIDTH"
  shows "radius a = 8 \<Longrightarrow>
         \<not> collides_with_wall m (position a) (of_int (radius a)) \<Longrightarrow>
         run_ticks_result m a dts = Inr b \<Longrightarrow>
         radius b = 8 \<and> \<not> collides_with_wall m (position b) (of_int (radius b))"
proof (induction dts arbitrary: a)
  case Nil
  then show ?case by simp
next
  case (Cons dt dts)
  from Cons.prems(3) obtain c where c: "Actor_update_result dt m a = Inr c"
    and rest: "run_ticks_result m c dts = Inr b"
    by (auto split: sum.splits)
  have ceq: "c = Actor_update dt m a" using c by (rule Actor_update_result_Inr)
  have rc: "radius c = 8" using Cons.prems(1) by (simp add: ceq Actor_update_radius)
  have fc: "\<not> collides_with_wall m (position c) (of_int (radius c))"
    using Actor_update_clear[OF assms, of a dt] Cons.prems(1,2)
    by (simp add: ceq Actor_update_radius)
  show ?case by (rule Cons.IH[OF rc fc rest])
qed

text \<open>
  C2. In the maze of any state the controller reaches from \<open>Game.__init__\<close>, an actor
  of radius 8 (every player and every ghost) whose position does not collide with a wall:
  whenever \<open>Actor.update\<close> returns, for any elapsed time, the resulting position
  does not collide with a wall; the same holds at the end of any sequence of ticks that
  return; and the update returns unless the step overflows the doubles, in which case it
  raises \<open>ValueError\<close> and no tick ends.
\<close>

theorem actors_stay_clear_of_walls:
  assumes "Game_init rnd0 = Inr g0" and "m = maze (run_events g0 evs)"
    and "radius a = 8"
    and "\<not> collides_with_wall m (position a) (of_int (radius a))"
  shows "(\<forall>b. Actor_update_result dt m a = Inr b \<longrightarrow>
            \<not> collides_with_wall m (position b) (of_int (radius b))) \<and>
         (\<forall>b. run_ticks_result m a dts = Inr b \<longrightarrow>
            \<not> collides_with_wall m (position b) (of_int (radius b))) \<and>
         ((\<exists>b. Actor_update_result dt m a = Inr b) \<longleftrightarrow>
            \<not> step_overflows dt
                (if next_direction a \<noteq> None then try_change_direction m a else a)) \<and>
         (Actor_update_result dt m a = Inl ValueError \<longleftrightarrow>
            step_overflows dt
                (if next_direction a \<noteq> None then try_change_direction m a else a))"
proof -
  have w: "width m \<le> GRID_WIDTH"
    using reachable_maze_width[OF assms(1), of evs] assms(2) by simp
  have one: "\<forall>b. Actor_update_result dt m a = Inr b \<longrightarrow>
      \<not> collides_with_wall m (position b) (of_int (radius b))"
    using run_ticks_result_clear[OF w assms(3,4), of "[dt]"]
    by (auto split: sum.splits)
  have many: "\<forall>b. run_ticks_result m a dts = Inr b \<longrightarrow>
      \<not> collides_with_wall m (position b) (of_int (radius b))"
    using run_ticks_result_clear[OF w assms(3,4), of dts] by blast
  have ret: "(\<exists>b. Actor_update_result dt m a = Inr b) \<longleftrightarrow>
      \<not> step_overflows dt (if next_direction a \<noteq> None then try_change_direction m a else a)"
    by (simp add: Actor_update_result_def Let_def)
  have err: "Actor_update_result dt m a = Inl ValueError \<longleftrightarrow>
      step_overflows dt (if next_direction a \<noteq> None then try_change_direction m a else a)"
    by (simp add: Actor_update_result_def Let_def)
  show ?thesis using one many ret err by blast
qed


lemma rd_small_ints: "rd 0 = 0" "rd 2 = 2" "rd (- 2) = - 2"
  using rd_of_int[of 0] rd_of_int[of 2] rd_of_int[of "- 2"] by simp_all

theorem actors_stay_clear_of_walls_witness:
  "Maze_init MAZE_LAYOUT = Inr game_maze \<and>
   radius (Player_init (Vector 270 450)) = 8 \<and>
   \<not> collides_with_wall game_maze (position (Player_init (Vector 270 450))) 8 \<and>
   Actor_update_result (1 / 60) game_maze (Player_init (Vector 270 450)) =
     Inr ((Player_init (Vector 270 450))\<lparr>position := Vector 268 450\<rparr>) \<and>
   \<not> collides_with_wall game_maze (Vector 268 450) 8 \<and>
   Actor_update_result (10 ^ 307) game_maze (Player_init (Vector 270 450)) = Inl ValueError"
proof -
  obtain g0 where g0: "Game_init (\<lambda>i. 0) = Inr g0"
    using Game_init_succeeds by blast
  have m: "game_maze = maze (run_events g0 [])"
    using Game_init_game_maze[OF g0] by (simp add: run_events_def)
  have r: "radius (Player_init (Vector 270 450)) = 8"
    by (simp add: Player_init_def)
  have w: "\<not> is_wall game_maze (13, 22)"
    by (simp add: is_wall_def game_maze_def MAZE_LAYOUT_def)
  have free: "\<not> collides_with_wall game_maze (position (Player_init (Vector 270 450)))
      (of_int (radius (Player_init (Vector 270 450))))"
    using w by (simp add: collides_with_wall_eq Player_init_def Vector_def)
  have moved: "\<not> collides_with_wall game_maze (Vector 268 450) 8"
    using w by (simp add: collides_with_wall_eq Vector_def)
  have upd: "Actor_update (1 / 60) game_maze (Player_init (Vector 270 450)) =
      (Player_init (Vector 270 450))\<lparr>position := Vector 268 450\<rparr>"
    using moved
    by (simp add: Actor_update_def Let_def Player_init_def vadd_def vmul_def Vector_def
        wrap_position_def SCREEN_WIDTH_def GRID_WIDTH_def TILE_SIZE_def)
  have fine: "\<not> step_overflows (1 / 60) (Player_init (Vector 270 450))"
    by (simp add: step_overflows_def Player_init_def Vector_def rd_small_ints
        float_overflow_def)
  have over: "step_overflows (10 ^ 307) (Player_init (Vector 270 450))"
    by (simp add: step_overflows_def Player_init_def float_overflow_def)
  have nd: "next_direction (Player_init (Vector 270 450)) = None"
    by (simp add: Player_init_def)
  have res: "Actor_update_result (1 / 60) game_maze (Player_init (Vector 270 450)) =
      Inr ((Player_init (Vector 270 450))\<lparr>position := Vector 268 450\<rparr>)"
    using fine by (simp add: Actor_update_result_def nd upd)
  note t1 = actors_stay_clear_of_walls[OF g0 m r free, of "1 / 60" "[]"]
  note t2 = actors_stay_clear_of_walls[OF g0 m r free, of "10 ^ 307" "[]"]
  have a: "\<not> collides_with_wall game_maze (Vector 268 450) 8"
    using t1 res by (auto simp: Player_init_def)
  have b: "Actor_update_result (10 ^ 307) game_maze (Player_init (Vector 270 450)) =
      Inl ValueError"
    using t2 over nd by simp
  show ?thesis
    using game_maze_init r free res a b by simp
qed

end
